theory Spec2Isabelle
  imports Complex_Main
begin

section \<open>Values shared by the scheduling engine\<close>

text \<open>
  JavaScript numbers are modelled as exact numbers: slot numbers, capacities, strengths and
  violation counts as \<open>int\<close>, hours, weights and fitness as \<open>real\<close>. Mongo object
  ids are modelled by the string that \<open>toString()\<close> (and a template literal) gives for them.
  The day of a time slot is the enumeration the mongoose schemas declare.
\<close>

datatype day = Monday | Tuesday | Wednesday | Thursday | Friday | Saturday

fun day_name :: "day \<Rightarrow> string" where
  "day_name Monday = ''Monday''"
| "day_name Tuesday = ''Tuesday''"
| "day_name Wednesday = ''Wednesday''"
| "day_name Thursday = ''Thursday''"
| "day_name Friday = ''Friday''"
| "day_name Saturday = ''Saturday''"

datatype session_type = theory_session | lab_session

text \<open>Number to string, as a template literal renders an integer.\<close>

definition digit_char :: "nat \<Rightarrow> char" where
  "digit_char n = ''0123456789'' ! (n mod 10)"

function show_nat :: "nat \<Rightarrow> string" where
  "show_nat n = (if n < 10 then [digit_char n] else show_nat (n div 10) @ [digit_char (n mod 10)])"
  by pat_completeness auto
termination
  by (relation "measure (\<lambda>n. n)") auto

declare show_nat.simps [simp del]

definition show_int :: "int \<Rightarrow> string" where
  "show_int i = (if i < 0 then CHR ''-'' # show_nat (nat (- i)) else show_nat (nat i))"

text \<open>
  String comparison with \<open><=\<close>: lexicographic on the code units, a proper prefix being
  smaller.
\<close>

fun str_le :: "string \<Rightarrow> string \<Rightarrow> bool" where
  "str_le [] ys = True"
| "str_le (x # xs) [] = False"
| "str_le (x # xs) (y # ys) =
     (if (of_char x :: nat) < of_char y then True
      else if (of_char y :: nat) < of_char x then False
      else str_le xs ys)"

text \<open>\<open>v || d\<close> on an optional number: \<open>undefined\<close> and \<open>0\<close> are falsy.\<close>

definition js_or :: "real option \<Rightarrow> real \<Rightarrow> real" where
  "js_or v d = (case v of None \<Rightarrow> d | Some x \<Rightarrow> if x = 0 then d else x)"

text \<open>
  A JavaScript \<open>Map\<close> keeps its keys in insertion order; \<open>set\<close> on a key that is
  present replaces the value in place.
\<close>

fun map_set :: "('k \<times> 'v) list \<Rightarrow> 'k \<Rightarrow> 'v \<Rightarrow> ('k \<times> 'v) list" where
  "map_set [] k v = [(k, v)]"
| "map_set ((k', v') # m) k v = (if k' = k then (k, v) # m else (k', v') # map_set m k v)"

definition map_get :: "('k \<times> 'v) list \<Rightarrow> 'k \<Rightarrow> 'v option" where
  "map_get m k = map_of m k"

definition map_has :: "('k \<times> 'v) list \<Rightarrow> 'k \<Rightarrow> bool" where
  "map_has m k = (map_of m k \<noteq> None)"

text \<open>\<open>new Map(entries)\<close>: the entries are set in order, a later one wins.\<close>

definition new_Map :: "('k \<times> 'v) list \<Rightarrow> ('k \<times> 'v) list" where
  "new_Map entries = foldl (\<lambda>m (k, v). map_set m k v) [] entries"

section \<open>The input snapshot\<close>

record time_slot =
  day :: day
  slotNumber :: int
  startTime :: string
  endTime :: string

record availability_slot =
  av_startTime :: string
  av_endTime :: string

text \<open>
  An entry of the \<open>subjects\<close> array of a faculty member. The schema does not require
  \<open>courseId\<close>, so an entry may come without one; \<open>canTeach\<close> defaults to \<open>true\<close>.
\<close>

record subject =
  subj_courseId :: "string option"
  subj_canTeach :: bool

text \<open>
  A faculty member. \<open>f_subjects\<close> is the \<open>subjects\<close> array (every document has one);
  \<open>f_availability\<close> is the optional \<open>availability\<close> object, read by lower-cased day
  name; the two workload bounds are the optional fields of the optional \<open>workload\<close> object.
\<close>

record faculty =
  f_id :: string
  f_name :: string
  f_subjects :: "subject list"
  f_availability :: "(day \<Rightarrow> availability_slot list option) option"
  f_maxHoursPerWeek :: "real option"
  f_minHoursPerWeek :: "real option"
  f_isActive :: bool

datatype room_type = classroom | lab | seminar_hall | auditorium

record room =
  r_id :: string
  r_roomNumber :: string
  r_capacity :: int
  r_type :: room_type
  r_labType :: "string option"
  r_isActive :: bool

record course_section =
  sectionName :: string
  strength :: int

record hours_spec =
  hoursPerWeek :: real
  sessionDuration :: real

record course =
  c_id :: string
  c_courseCode :: string
  c_courseName :: string
  theoryHours :: hours_spec
  labHours :: hours_spec
  sections :: "course_section list"
  isElective :: bool
  electiveGroup :: "string option"
  specificLabType :: "string option"

section \<open>Genes and chromosomes\<close>

record gene =
  courseId :: string
  courseCode :: string
  courseName :: string
  g_section :: string
  sessionType :: session_type
  timeSlot :: time_slot
  facultyId :: string
  facultyName :: string
  roomId :: string
  roomNumber :: string
  duration :: real
  consecutiveSlots :: int

text \<open>One entry of the detail breakdown that \<open>calculate\<close> returns.\<close>

datatype detail =
  Count_detail string int real
  | Workload_detail int int real
  | Balance_detail real real

record details =
  hardConstraints :: "detail list"
  softConstraints :: "detail list"

text \<open>
  A chromosome holds its genes and the cached evaluation. The fitness evaluator reads a
  chromosome whose genes are gene values (\<open>gene chromosome\<close>).
\<close>

record 'g chromosome =
  genes :: "'g list"
  fitness :: real
  hardViolations :: int
  softViolations :: int
  details :: "details option"

section \<open>FitnessCalculator\<close>

record weights =
  facultyDoubleBooking :: real
  roomDoubleBooking :: real
  sectionConflict :: real
  facultyUnavailable :: real
  labContinuity :: real
  roomCapacity :: real
  workloadExceeded :: real
  workloadUnderUtilized :: real
  studentGaps :: real
  facultyGaps :: real
  workloadBalance :: real
  preferenceMatch :: real
  consecutiveHours :: real
  dailyDistribution :: real

text \<open>The constructor: the caller's table, read by key, each entry with its default.\<close>

definition FitnessCalculator :: "(string \<Rightarrow> real option) \<Rightarrow> weights" where
  "FitnessCalculator ws =
     \<lparr> facultyDoubleBooking = js_or (ws ''facultyDoubleBooking'') 1000,
       roomDoubleBooking = js_or (ws ''roomDoubleBooking'') 1000,
       sectionConflict = js_or (ws ''sectionConflict'') 1000,
       facultyUnavailable = js_or (ws ''facultyUnavailable'') 900,
       labContinuity = js_or (ws ''labContinuity'') 800,
       roomCapacity = js_or (ws ''roomCapacity'') 800,
       workloadExceeded = js_or (ws ''workloadExceeded'') 100,
       workloadUnderUtilized = js_or (ws ''workloadUnderUtilized'') 80,
       studentGaps = js_or (ws ''studentGaps'') 50,
       facultyGaps = js_or (ws ''facultyGaps'') 40,
       workloadBalance = js_or (ws ''workloadBalance'') 60,
       preferenceMatch = js_or (ws ''preferenceMatch'') 30,
       consecutiveHours = js_or (ws ''consecutiveHours'') 50,
       dailyDistribution = js_or (ws ''dailyDistribution'') 40 \<rparr>"

subsection \<open>Double bookings\<close>

record conflict_result =
  count :: nat
  conflicts :: "string list"

text \<open>
  The loop of the three double-booking checks over the keys of the genes: a key already in
  the map counts one conflict; every key is then set.
\<close>

fun scan_keys :: "string list \<Rightarrow> (string \<times> bool) list \<Rightarrow> nat \<Rightarrow> conflict_result" where
  "scan_keys [] seen n = \<lparr> count = n, conflicts = map fst seen \<rparr>"
| "scan_keys (k # ks) seen n =
     scan_keys ks (map_set seen k True) (if map_has seen k then n + 1 else n)"

definition faculty_key :: "gene \<Rightarrow> string" where
  "faculty_key g =
     facultyId g @ ''-'' @ day_name (day (timeSlot g)) @ ''-'' @ show_int (slotNumber (timeSlot g))"

definition room_key :: "gene \<Rightarrow> string" where
  "room_key g =
     roomId g @ ''-'' @ day_name (day (timeSlot g)) @ ''-'' @ show_int (slotNumber (timeSlot g))"

definition section_key :: "gene \<Rightarrow> string" where
  "section_key g =
     g_section g @ ''-'' @ day_name (day (timeSlot g)) @ ''-'' @ show_int (slotNumber (timeSlot g))"

definition checkFacultyConflicts :: "gene chromosome \<Rightarrow> conflict_result" where
  "checkFacultyConflicts chromosome = scan_keys (map faculty_key (genes chromosome)) [] 0"

definition checkRoomConflicts :: "gene chromosome \<Rightarrow> conflict_result" where
  "checkRoomConflicts chromosome = scan_keys (map room_key (genes chromosome)) [] 0"

definition checkSectionConflicts :: "gene chromosome \<Rightarrow> conflict_result" where
  "checkSectionConflicts chromosome = scan_keys (map section_key (genes chromosome)) [] 0"

subsection \<open>Availability, lab continuity, room capacity\<close>

text \<open>
  Whether the availability loop counts a gene: only when the faculty member is in the map
  and has an availability object; then when the day has no window, or no window contains
  the slot.
\<close>

definition gene_unavailable :: "(string \<times> faculty) list \<Rightarrow> gene \<Rightarrow> bool" where
  "gene_unavailable facultyMap g =
     (case map_get facultyMap (facultyId g) of
        None \<Rightarrow> False
      | Some facultyMember \<Rightarrow>
          (case f_availability facultyMember of
             None \<Rightarrow> False
           | Some availability \<Rightarrow>
               (case availability (day (timeSlot g)) of
                  None \<Rightarrow> True
                | Some dayAvailability \<Rightarrow>
                    if dayAvailability = [] then True
                    else \<not> list_ex
                      (\<lambda>slot. str_le (av_startTime slot) (startTime (timeSlot g)) \<and>
                              str_le (endTime (timeSlot g)) (av_endTime slot))
                      dayAvailability)))"

definition checkFacultyAvailability :: "gene chromosome \<Rightarrow> faculty list \<Rightarrow> nat" where
  "checkFacultyAvailability chromosome faculty =
     (let facultyMap = new_Map (map (\<lambda>f. (f_id f, f)) faculty)
      in length (filter (gene_unavailable facultyMap) (genes chromosome)))"

text \<open>
  The lab continuity check as the source has it: every lab session that needs more than
  one slot adds 0 to the count.
\<close>

definition checkLabContinuity :: "gene chromosome \<Rightarrow> nat" where
  "checkLabContinuity chromosome =
     (let labSessions = filter (\<lambda>g. sessionType g = lab_session) (genes chromosome)
      in sum_list (map (\<lambda>session. if consecutiveSlots session > 1 then 0 else 0) labSessions))"

definition gene_over_capacity ::
  "(string \<times> room) list \<Rightarrow> (string \<times> course) list \<Rightarrow> gene \<Rightarrow> bool" where
  "gene_over_capacity roomMap courseMap g =
     (case map_get roomMap (roomId g) of
        None \<Rightarrow> False
      | Some room \<Rightarrow>
          (case map_get courseMap (courseId g) of
             None \<Rightarrow> False
           | Some course \<Rightarrow>
               (case find (\<lambda>s. sectionName s = g_section g) (sections course) of
                  None \<Rightarrow> False
                | Some sec \<Rightarrow> r_capacity room < strength sec)))"

definition checkRoomCapacity :: "gene chromosome \<Rightarrow> course list \<Rightarrow> room list \<Rightarrow> nat" where
  "checkRoomCapacity chromosome courses rooms =
     (let roomMap = new_Map (map (\<lambda>r. (r_id r, r)) rooms);
          courseMap = new_Map (map (\<lambda>c. (c_id c, c)) courses)
      in length (filter (gene_over_capacity roomMap courseMap) (genes chromosome)))"

subsection \<open>Workload, gaps, balance, consecutive hours\<close>

text \<open>Hours per faculty id, accumulated gene by gene.\<close>

definition workload_of :: "gene list \<Rightarrow> (string \<times> real) list" where
  "workload_of gs =
     foldl (\<lambda>workload g.
              map_set workload (facultyId g)
                (js_or (map_get workload (facultyId g)) 0 + duration g))
       [] gs"

record workload_result =
  exceeded :: nat
  underUtilized :: nat

definition checkWorkloadConstraints :: "gene chromosome \<Rightarrow> faculty list \<Rightarrow> workload_result" where
  "checkWorkloadConstraints chromosome faculty =
     (let workload = workload_of (genes chromosome);
          assigned = (\<lambda>f. js_or (map_get workload (f_id f)) 0);
          mx = (\<lambda>f. js_or (f_maxHoursPerWeek f) 18);
          mn = (\<lambda>f. js_or (f_minHoursPerWeek f) 12)
      in \<lparr> exceeded = length (filter (\<lambda>f. assigned f > mx f) faculty),
           underUtilized =
             length (filter (\<lambda>f. \<not> assigned f > mx f \<and> assigned f < mn f) faculty) \<rparr>)"

text \<open>Slot numbers grouped under a key, each group in the order the genes come.\<close>

definition group_slots :: "(gene \<Rightarrow> string) \<Rightarrow> gene list \<Rightarrow> (string \<times> int list) list" where
  "group_slots key gs =
     foldl (\<lambda>schedules g.
              (let schedules' =
                     (if map_has schedules (key g) then schedules else map_set schedules (key g) [])
               in map_set schedules' (key g)
                    (the (map_get schedules' (key g)) @ [slotNumber (timeSlot g)])))
       [] gs"

fun gap_total :: "int list \<Rightarrow> int" where
  "gap_total (a # b # slots) = (b - a - 1) + gap_total (b # slots)"
| "gap_total slots = 0"

definition section_day_key :: "gene \<Rightarrow> string" where
  "section_day_key g = g_section g @ ''-'' @ day_name (day (timeSlot g))"

definition faculty_day_key :: "gene \<Rightarrow> string" where
  "faculty_day_key g = facultyId g @ ''-'' @ day_name (day (timeSlot g))"

definition calculateStudentGaps :: "gene chromosome \<Rightarrow> int" where
  "calculateStudentGaps chromosome =
     sum_list (map (\<lambda>(key, slots). gap_total (sort slots))
       (group_slots section_day_key (genes chromosome)))"

definition calculateFacultyGaps :: "gene chromosome \<Rightarrow> int" where
  "calculateFacultyGaps chromosome =
     sum_list (map (\<lambda>(key, slots). gap_total (sort slots))
       (group_slots faculty_day_key (genes chromosome)))"

record balance_result =
  imbalance :: int
  variance :: real

text \<open>
  \<open>variance\<close> is the number the source formats with \<open>toFixed(2)\<close>; the formatting is
  not modelled.
\<close>

definition evaluateWorkloadBalance :: "gene chromosome \<Rightarrow> faculty list \<Rightarrow> balance_result" where
  "evaluateWorkloadBalance chromosome faculty =
     (let workloads = map snd (workload_of (genes chromosome))
      in if length workloads = 0 then \<lparr> imbalance = 0, variance = 0 \<rparr>
         else
           (let mean = sum_list workloads / real (length workloads);
                var = sum_list (map (\<lambda>w. (w - mean) ^ 2) workloads) / real (length workloads);
                standardDeviation = sqrt var
            in \<lparr> imbalance = \<lfloor>standardDeviation\<rfloor>, variance = var \<rparr>))"

text \<open>
  The walk over one sorted group: \<open>consecutive\<close> is the length of the current run; a
  step of exactly one extends it and counts once the run is longer than three.
\<close>

fun consecutive_walk :: "int list \<Rightarrow> nat \<Rightarrow> nat" where
  "consecutive_walk (a # b # slots) consecutive =
     (if b - a = 1
      then (if consecutive + 1 > 3 then 1 else 0) + consecutive_walk (b # slots) (consecutive + 1)
      else consecutive_walk (b # slots) 1)"
| "consecutive_walk slots consecutive = 0"

definition checkConsecutiveHours :: "gene chromosome \<Rightarrow> faculty list \<Rightarrow> nat" where
  "checkConsecutiveHours chromosome faculty =
     sum_list (map (\<lambda>(key, slots). consecutive_walk (sort slots) 1)
       (group_slots faculty_day_key (genes chromosome)))"

subsection \<open>calculate\<close>

record evaluation =
  ev_fitness :: real
  ev_hardViolations :: int
  ev_softViolations :: int
  ev_details :: details

text \<open>
  The \<open>constraints\<close> argument of the source is never read and is left out. The fitness
  starts at 1000 and loses each penalty in the order of the source; the counts are added
  to the two violation totals; an entry is pushed to the breakdown only when its count is
  positive.
\<close>

definition calculate ::
  "weights \<Rightarrow> gene chromosome \<Rightarrow> course list \<Rightarrow> faculty list \<Rightarrow> room list \<Rightarrow> evaluation" where
  "calculate w chromosome courses faculty rooms =
     (let facultyConflictsN = int (count (checkFacultyConflicts chromosome));
          roomConflictsN = int (count (checkRoomConflicts chromosome));
          sectionConflictsN = int (count (checkSectionConflicts chromosome));
          unavailableSlotsN = int (checkFacultyAvailability chromosome faculty);
          labContinuityN = int (checkLabContinuity chromosome);
          capacityIssuesN = int (checkRoomCapacity chromosome courses rooms);
          workloadViolations = checkWorkloadConstraints chromosome faculty;
          exceededN = int (exceeded workloadViolations);
          underUtilizedN = int (underUtilized workloadViolations);
          studentGapsN = calculateStudentGaps chromosome;
          facultyGapsN = calculateFacultyGaps chromosome;
          balance = evaluateWorkloadBalance chromosome faculty;
          consecutiveHoursN = int (checkConsecutiveHours chromosome faculty)
      in \<lparr> ev_fitness =
             max 0 (1000
               - real_of_int facultyConflictsN * facultyDoubleBooking w
               - real_of_int roomConflictsN * roomDoubleBooking w
               - real_of_int sectionConflictsN * sectionConflict w
               - real_of_int unavailableSlotsN * facultyUnavailable w
               - real_of_int labContinuityN * labContinuity w
               - real_of_int capacityIssuesN * roomCapacity w
               - real_of_int exceededN * workloadExceeded w
               - real_of_int underUtilizedN * workloadUnderUtilized w
               - real_of_int studentGapsN * studentGaps w
               - real_of_int facultyGapsN * facultyGaps w
               - real_of_int (imbalance balance) * workloadBalance w
               - real_of_int consecutiveHoursN * consecutiveHours w),
           ev_hardViolations =
             facultyConflictsN + roomConflictsN + sectionConflictsN + unavailableSlotsN
               + labContinuityN + capacityIssuesN,
           ev_softViolations =
             (exceededN + underUtilizedN) + studentGapsN + facultyGapsN + imbalance balance
               + consecutiveHoursN,
           ev_details =
             \<lparr> hardConstraints =
                 (if facultyConflictsN > 0
                  then [Count_detail ''faculty_double_booking'' facultyConflictsN
                          (real_of_int facultyConflictsN * facultyDoubleBooking w)]
                  else [])
                 @ (if roomConflictsN > 0
                    then [Count_detail ''room_double_booking'' roomConflictsN
                            (real_of_int roomConflictsN * roomDoubleBooking w)]
                    else [])
                 @ (if sectionConflictsN > 0
                    then [Count_detail ''section_conflict'' sectionConflictsN
                            (real_of_int sectionConflictsN * sectionConflict w)]
                    else [])
                 @ (if unavailableSlotsN > 0
                    then [Count_detail ''faculty_unavailable'' unavailableSlotsN
                            (real_of_int unavailableSlotsN * facultyUnavailable w)]
                    else [])
                 @ (if labContinuityN > 0
                    then [Count_detail ''lab_continuity_broken'' labContinuityN
                            (real_of_int labContinuityN * labContinuity w)]
                    else [])
                 @ (if capacityIssuesN > 0
                    then [Count_detail ''room_capacity_exceeded'' capacityIssuesN
                            (real_of_int capacityIssuesN * roomCapacity w)]
                    else []),
               softConstraints =
                 (if exceededN + underUtilizedN > 0
                  then [Workload_detail exceededN underUtilizedN
                          (real_of_int exceededN * workloadExceeded w
                             + real_of_int underUtilizedN * workloadUnderUtilized w)]
                  else [])
                 @ (if studentGapsN > 0
                    then [Count_detail ''student_gaps'' studentGapsN
                            (real_of_int studentGapsN * studentGaps w)]
                    else [])
                 @ (if facultyGapsN > 0
                    then [Count_detail ''faculty_gaps'' facultyGapsN
                            (real_of_int facultyGapsN * facultyGaps w)]
                    else [])
                 @ (if imbalance balance > 0
                    then [Balance_detail (variance balance)
                            (real_of_int (imbalance balance) * workloadBalance w)]
                    else [])
                 @ (if consecutiveHoursN > 0
                    then [Count_detail ''excessive_consecutive_hours'' consecutiveHoursN
                            (real_of_int consecutiveHoursN * consecutiveHours w)]
                    else []) \<rparr> \<rparr>)"

text \<open>
  The sum of count times weight over the twelve counts the evaluator computes.
\<close>

definition penalty_total ::
  "weights \<Rightarrow> gene chromosome \<Rightarrow> course list \<Rightarrow> faculty list \<Rightarrow> room list \<Rightarrow> real" where
  "penalty_total w chromosome courses faculty rooms =
     real (count (checkFacultyConflicts chromosome)) * facultyDoubleBooking w
     + real (count (checkRoomConflicts chromosome)) * roomDoubleBooking w
     + real (count (checkSectionConflicts chromosome)) * sectionConflict w
     + real (checkFacultyAvailability chromosome faculty) * facultyUnavailable w
     + real (checkLabContinuity chromosome) * labContinuity w
     + real (checkRoomCapacity chromosome courses rooms) * roomCapacity w
     + real (exceeded (checkWorkloadConstraints chromosome faculty)) * workloadExceeded w
     + real (underUtilized (checkWorkloadConstraints chromosome faculty)) * workloadUnderUtilized w
     + real_of_int (calculateStudentGaps chromosome) * studentGaps w
     + real_of_int (calculateFacultyGaps chromosome) * facultyGaps w
     + real_of_int (imbalance (evaluateWorkloadBalance chromosome faculty)) * workloadBalance w
     + real (checkConsecutiveHours chromosome faculty) * consecutiveHours w"

text \<open>
  The round trip of the specification: each entry of the returned breakdown, its reported
  count times the entry of the weight table for its type. The \<open>workload_imbalance\<close> entry
  reports two counts. The \<open>workload_balance\<close> entry reports no count, only the variance
  and the penalty; the round trip takes its penalty.
\<close>

definition weight_of_type :: "weights \<Rightarrow> string \<Rightarrow> real" where
  "weight_of_type w t =
     (if t = ''faculty_double_booking'' then facultyDoubleBooking w
      else if t = ''room_double_booking'' then roomDoubleBooking w
      else if t = ''section_conflict'' then sectionConflict w
      else if t = ''faculty_unavailable'' then facultyUnavailable w
      else if t = ''lab_continuity_broken'' then labContinuity w
      else if t = ''room_capacity_exceeded'' then roomCapacity w
      else if t = ''student_gaps'' then studentGaps w
      else if t = ''faculty_gaps'' then facultyGaps w
      else if t = ''excessive_consecutive_hours'' then consecutiveHours w
      else 0)"

fun reported_penalty :: "weights \<Rightarrow> detail \<Rightarrow> real" where
  "reported_penalty w (Count_detail t c p) = real_of_int c * weight_of_type w t"
| "reported_penalty w (Workload_detail e u p) =
     real_of_int e * workloadExceeded w + real_of_int u * workloadUnderUtilized w"
| "reported_penalty w (Balance_detail v p) = p"

definition round_trip_fitness :: "weights \<Rightarrow> details \<Rightarrow> real" where
  "round_trip_fitness w d =
     max 0 (1000 - sum_list (map (reported_penalty w) (hardConstraints d @ softConstraints d)))"

section \<open>GeneticAlgorithm\<close>

text \<open>
  \<open>Nontermination\<close> stands for a call that never returns; the other two are the
  exceptions the driver can throw.
\<close>

datatype error = TypeError | SyntaxError | Nontermination

text \<open>
  \<open>Math.random()\<close> is an ambient generator. It is modelled by the sequence of the values
  it is going to return; a call takes the first one and leaves the rest. The values lie in
  \<open>[0, 1)\<close>: the fractional part makes every sequence of reals an admissible one.
\<close>

type_synonym rng = "nat \<Rightarrow> real"

definition Math_random :: "rng \<Rightarrow> real \<times> rng" where
  "Math_random r = (frac (r 0), \<lambda>n. r (Suc n))"

text \<open>\<open>xs[i]\<close>, \<open>undefined\<close> out of range.\<close>

definition element_at :: "'a list \<Rightarrow> int \<Rightarrow> 'a option" where
  "element_at xs i = (if 0 \<le> i \<and> i < int (length xs) then Some (xs ! nat i) else None)"

text \<open>\<open>xs[Math.floor(Math.random() * xs.length)]\<close>\<close>

definition random_element :: "'a list \<Rightarrow> rng \<Rightarrow> 'a option \<times> rng" where
  "random_element xs r =
     (let (x, r') = Math_random r in (element_at xs \<lfloor>x * real (length xs)\<rfloor>, r'))"

subsection \<open>Construction and initialisation\<close>

text \<open>
  The configuration object. The four counts are natural numbers; \<open>0\<close> and a missing
  entry take the default. No line of the constructor reads \<open>cfg_seed\<close>.
\<close>

record config =
  cfg_populationSize :: "nat option"
  cfg_maxGenerations :: "nat option"
  cfg_mutationRate :: "real option"
  cfg_crossoverRate :: "real option"
  cfg_elitismCount :: "nat option"
  cfg_tournamentSize :: "nat option"
  cfg_weights :: "string \<Rightarrow> real option"
  cfg_seed :: "int option"

definition nat_or :: "nat option \<Rightarrow> nat \<Rightarrow> nat" where
  "nat_or v d = (case v of None \<Rightarrow> d | Some x \<Rightarrow> if x = 0 then d else x)"

record snapshot =
  s_courses :: "course list"
  s_faculty :: "faculty list"
  s_rooms :: "room list"
  s_timeSlots :: "time_slot list"

text \<open>
  The fields of the driver that a run does not change: the parameters, the fitness
  calculator and the problem data (\<open>constraints\<close> is stored and never read).
\<close>

record ga =
  populationSize :: nat
  maxGenerations :: nat
  mutationRate :: real
  crossoverRate :: real
  elitismCount :: nat
  tournamentSize :: nat
  fitnessCalculator :: weights
  ga_courses :: "course list"
  ga_faculty :: "faculty list"
  ga_rooms :: "room list"
  ga_timeSlots :: "time_slot list"

definition GeneticAlgorithm :: "config \<Rightarrow> ga" where
  "GeneticAlgorithm cfg =
     \<lparr> populationSize = nat_or (cfg_populationSize cfg) 100,
       maxGenerations = nat_or (cfg_maxGenerations cfg) 1000,
       mutationRate = js_or (cfg_mutationRate cfg) (1 / 10),
       crossoverRate = js_or (cfg_crossoverRate cfg) (8 / 10),
       elitismCount = nat_or (cfg_elitismCount cfg) 5,
       tournamentSize = nat_or (cfg_tournamentSize cfg) 5,
       fitnessCalculator = FitnessCalculator (cfg_weights cfg),
       ga_courses = [], ga_faculty = [], ga_rooms = [], ga_timeSlots = [] \<rparr>"

definition initialize :: "ga \<Rightarrow> snapshot \<Rightarrow> ga" where
  "initialize g d =
     g\<lparr> ga_courses := s_courses d, ga_faculty := s_faculty d, ga_rooms := s_rooms d,
        ga_timeSlots := s_timeSlots d \<rparr>"

subsection \<open>Random construction\<close>

record session =
  s_type :: session_type
  s_duration :: real
  s_consecutiveSlots :: int

text \<open>
  The sessions of a course. With positive weekly hours and a session duration of 0 the
  quotient is \<open>Infinity\<close> and the loop that pushes the sessions never ends. A negative
  quotient gives no session.
\<close>

definition getRequiredSessions :: "course \<Rightarrow> error + session list" where
  "getRequiredSessions c =
     (if hoursPerWeek (theoryHours c) > 0 \<and> sessionDuration (theoryHours c) = 0
      then Inl Nontermination
      else if hoursPerWeek (labHours c) > 0 \<and> sessionDuration (labHours c) = 0
      then Inl Nontermination
      else Inr
        ((if hoursPerWeek (theoryHours c) > 0
          then replicate
                 (nat \<lceil>hoursPerWeek (theoryHours c) / sessionDuration (theoryHours c)\<rceil>)
                 \<lparr> s_type = theory_session, s_duration = sessionDuration (theoryHours c),
                   s_consecutiveSlots = 1 \<rparr>
          else [])
         @ (if hoursPerWeek (labHours c) > 0
            then replicate
                   (nat \<lceil>hoursPerWeek (labHours c) / sessionDuration (labHours c)\<rceil>)
                   \<lparr> s_type = lab_session, s_duration = sessionDuration (labHours c),
                     s_consecutiveSlots = \<lceil>sessionDuration (labHours c)\<rceil> \<rparr>
            else [])))"

text \<open>\<open>toLowerCase\<close> on the letters A to Z; other characters stay.\<close>

definition to_lower_char :: "char \<Rightarrow> char" where
  "to_lower_char ch =
     (if ch = CHR ''A'' then CHR ''a'' else if ch = CHR ''B'' then CHR ''b''
      else if ch = CHR ''C'' then CHR ''c'' else if ch = CHR ''D'' then CHR ''d''
      else if ch = CHR ''E'' then CHR ''e'' else if ch = CHR ''F'' then CHR ''f''
      else if ch = CHR ''G'' then CHR ''g'' else if ch = CHR ''H'' then CHR ''h''
      else if ch = CHR ''I'' then CHR ''i'' else if ch = CHR ''J'' then CHR ''j''
      else if ch = CHR ''K'' then CHR ''k'' else if ch = CHR ''L'' then CHR ''l''
      else if ch = CHR ''M'' then CHR ''m'' else if ch = CHR ''N'' then CHR ''n''
      else if ch = CHR ''O'' then CHR ''o'' else if ch = CHR ''P'' then CHR ''p''
      else if ch = CHR ''Q'' then CHR ''q'' else if ch = CHR ''R'' then CHR ''r''
      else if ch = CHR ''S'' then CHR ''s'' else if ch = CHR ''T'' then CHR ''t''
      else if ch = CHR ''U'' then CHR ''u'' else if ch = CHR ''V'' then CHR ''v''
      else if ch = CHR ''W'' then CHR ''w'' else if ch = CHR ''X'' then CHR ''x''
      else if ch = CHR ''Y'' then CHR ''y'' else if ch = CHR ''Z'' then CHR ''z''
      else ch)"

definition toLowerCase :: "string \<Rightarrow> string" where
  "toLowerCase s = map to_lower_char s"

definition isRoomSuitable :: "room \<Rightarrow> course \<Rightarrow> session_type \<Rightarrow> course_section \<Rightarrow> bool" where
  "isRoomSuitable rm c st sec =
     (if \<not> r_isActive rm then False
      else if r_capacity rm < strength sec then False
      else if st = lab_session
      then (if r_type rm \<noteq> lab then False
            else (case specificLabType c of
                    None \<Rightarrow> True
                  | Some t \<Rightarrow>
                      if t = [] then True
                      else if r_labType rm \<noteq> Some (toLowerCase t) \<and> toLowerCase t \<noteq> ''general''
                      then False else True))
      else (if r_type rm \<noteq> classroom \<and> r_type rm \<noteq> seminar_hall then False else True))"

text \<open>
  \<open>f.subjects.some(s => s.courseId.toString() === course._id.toString())\<close>. The
  subjects are read in order up to the first one of the course; reading \<open>toString\<close> of a
  \<open>courseId\<close> that is \<open>undefined\<close> throws.
\<close>

fun subjects_some :: "subject list \<Rightarrow> string \<Rightarrow> error + bool" where
  "subjects_some [] cid = Inr False"
| "subjects_some (s # ss) cid =
     (case subj_courseId s of
        None \<Rightarrow> Inl TypeError
      | Some i \<Rightarrow> if i = cid then Inr True else subjects_some ss cid)"

text \<open>
  \<open>this.faculty.filter(f => f.subjects.some(...) && f.isActive)\<close>: the subjects of
  every faculty member are read, of the inactive ones too, and the first throw ends the
  filter.
\<close>

fun filter_faculty :: "faculty list \<Rightarrow> string \<Rightarrow> error + faculty list" where
  "filter_faculty [] cid = Inr []"
| "filter_faculty (f # fs) cid =
     (case subjects_some (f_subjects f) cid of
        Inl e \<Rightarrow> Inl e
      | Inr b \<Rightarrow>
          (case filter_faculty fs cid of
             Inl e \<Rightarrow> Inl e
           | Inr rest \<Rightarrow> Inr (if b \<and> f_isActive f then f # rest else rest)))"

definition eligibleFaculty :: "ga \<Rightarrow> course \<Rightarrow> error + faculty list" where
  "eligibleFaculty g c = filter_faculty (ga_faculty g) (c_id c)"

definition eligibleRooms :: "ga \<Rightarrow> course \<Rightarrow> session_type \<Rightarrow> course_section \<Rightarrow> room list" where
  "eligibleRooms g c st sec = filter (\<lambda>rm. isRoomSuitable rm c st sec) (ga_rooms g)"

text \<open>
  One gene, or \<open>null\<close>. The time slot is drawn first; the faculty and the room are drawn
  only when their candidate lists are not empty. The body is a \<open>try\<close> block whose
  \<open>catch\<close> returns \<open>null\<close>: so does a throw of the faculty filter, after the draw of the
  time slot, and so does the read of a field of a time slot that is \<open>undefined\<close>, after
  all three draws.
\<close>

definition createRandomGene ::
  "ga \<Rightarrow> course \<Rightarrow> course_section \<Rightarrow> session \<Rightarrow> rng \<Rightarrow> gene option \<times> rng" where
  "createRandomGene g c sec ses r =
     (let (slot, r1) = random_element (ga_timeSlots g) r
      in (case eligibleFaculty g c of
            Inl e \<Rightarrow> (None, r1)
          | Inr facs \<Rightarrow>
              if facs = [] then (None, r1)
              else
                (let (fac, r2) = random_element facs r1
                 in if eligibleRooms g c (s_type ses) sec = [] then (None, r2)
                    else
                      (let (rm, r3) = random_element (eligibleRooms g c (s_type ses) sec) r2
                       in (case (slot, fac, rm) of
                             (Some ts, Some f, Some ro) \<Rightarrow>
                               (Some \<lparr> courseId = c_id c, courseCode = c_courseCode c,
                                       courseName = c_courseName c, g_section = sectionName sec,
                                       sessionType = s_type ses, timeSlot = ts,
                                       facultyId = f_id f, facultyName = f_name f,
                                       roomId = r_id ro, roomNumber = r_roomNumber ro,
                                       duration = s_duration ses,
                                       consecutiveSlots = s_consecutiveSlots ses \<rparr>, r3)
                           | _ \<Rightarrow> (None, r3))))))"

fun genes_of_sessions ::
  "ga \<Rightarrow> course \<Rightarrow> course_section \<Rightarrow> session list \<Rightarrow> rng \<Rightarrow> gene list \<times> rng" where
  "genes_of_sessions g c sec [] r = ([], r)"
| "genes_of_sessions g c sec (ses # sess) r =
     (let (gn, r1) = createRandomGene g c sec ses r;
          (gs, r2) = genes_of_sessions g c sec sess r1
      in ((case gn of None \<Rightarrow> [] | Some x \<Rightarrow> [x]) @ gs, r2))"

fun genes_of_sections ::
  "ga \<Rightarrow> course \<Rightarrow> session list \<Rightarrow> course_section list \<Rightarrow> rng \<Rightarrow> gene list \<times> rng" where
  "genes_of_sections g c sess [] r = ([], r)"
| "genes_of_sections g c sess (sec # secs) r =
     (let (gs1, r1) = genes_of_sessions g c sec sess r;
          (gs2, r2) = genes_of_sections g c sess secs r1
      in (gs1 @ gs2, r2))"

fun genes_of_courses :: "ga \<Rightarrow> course list \<Rightarrow> rng \<Rightarrow> error + gene list \<times> rng" where
  "genes_of_courses g [] r = Inr ([], r)"
| "genes_of_courses g (c # cs) r =
     (case getRequiredSessions c of
        Inl e \<Rightarrow> Inl e
      | Inr sess \<Rightarrow>
          (let (gs1, r1) = genes_of_sections g c sess (sections c) r
           in (case genes_of_courses g cs r1 of
                 Inl e \<Rightarrow> Inl e
               | Inr (gs2, r2) \<Rightarrow> Inr (gs1 @ gs2, r2))))"

definition createRandomChromosome :: "ga \<Rightarrow> rng \<Rightarrow> error + gene chromosome \<times> rng" where
  "createRandomChromosome g r =
     (case genes_of_courses g (ga_courses g) r of
        Inl e \<Rightarrow> Inl e
      | Inr (gs, r') \<Rightarrow>
          Inr (\<lparr> genes = gs, fitness = 0, hardViolations = 0, softViolations = 0,
                 details = None \<rparr>, r'))"

subsection \<open>Gene objects and chromosomes of the population\<close>

text \<open>
  Crossover copies references: an offspring shares its gene objects with its parents, and
  \<open>mutate\<close> writes into a gene object. The gene objects of a run therefore live in a store,
  a list read by address, and a chromosome of the population holds addresses
  (\<open>nat chromosome\<close>). A JSON round trip builds fresh objects.
\<close>

type_synonym gene_store = "gene list"

definition alloc_all :: "gene_store \<Rightarrow> gene list \<Rightarrow> gene_store \<times> nat list" where
  "alloc_all h gs = (h @ gs, [length h ..< length h + length gs])"

definition load :: "gene_store \<Rightarrow> nat chromosome \<Rightarrow> gene chromosome" where
  "load h c =
     \<lparr> genes = map (\<lambda>a. h ! a) (genes c), fitness = fitness c,
       hardViolations = hardViolations c, softViolations = softViolations c,
       details = details c \<rparr>"

definition store_new :: "gene_store \<Rightarrow> gene chromosome \<Rightarrow> gene_store \<times> nat chromosome" where
  "store_new h c =
     (let (h', as) = alloc_all h (genes c)
      in (h', \<lparr> genes = as, fitness = fitness c, hardViolations = hardViolations c,
                softViolations = softViolations c, details = details c \<rparr>))"

text \<open>\<open>JSON.parse(JSON.stringify(c))\<close> for a chromosome of the population.\<close>

definition json_copy :: "gene_store \<Rightarrow> nat chromosome \<Rightarrow> gene_store \<times> nat chromosome" where
  "json_copy h c = store_new h (load h c)"

fun json_copy_all ::
  "gene_store \<Rightarrow> nat chromosome list \<Rightarrow> gene_store \<times> nat chromosome list" where
  "json_copy_all h [] = (h, [])"
| "json_copy_all h (c # cs) =
     (let (h1, c') = json_copy h c; (h2, cs') = json_copy_all h1 cs in (h2, c' # cs'))"

fun generateInitialPopulation_loop ::
  "ga \<Rightarrow> nat \<Rightarrow> gene_store \<Rightarrow> rng \<Rightarrow> error + gene_store \<times> nat chromosome list \<times> rng" where
  "generateInitialPopulation_loop g 0 h r = Inr (h, [], r)"
| "generateInitialPopulation_loop g (Suc n) h r =
     (case createRandomChromosome g r of
        Inl e \<Rightarrow> Inl e
      | Inr (c, r1) \<Rightarrow>
          (let (h1, c') = store_new h c
           in (case generateInitialPopulation_loop g n h1 r1 of
                 Inl e \<Rightarrow> Inl e
               | Inr (h2, cs, r2) \<Rightarrow> Inr (h2, c' # cs, r2))))"

definition generateInitialPopulation ::
  "ga \<Rightarrow> rng \<Rightarrow> error + gene_store \<times> nat chromosome list \<times> rng" where
  "generateInitialPopulation g r = generateInitialPopulation_loop g (populationSize g) [] r"

definition evaluateChromosome :: "ga \<Rightarrow> gene_store \<Rightarrow> nat chromosome \<Rightarrow> nat chromosome" where
  "evaluateChromosome g h c =
     (let evaluation =
            calculate (fitnessCalculator g) (load h c) (ga_courses g) (ga_faculty g) (ga_rooms g)
      in c\<lparr> fitness := ev_fitness evaluation,
            hardViolations := ev_hardViolations evaluation,
            softViolations := ev_softViolations evaluation,
            details := Some (ev_details evaluation) \<rparr>)"

definition evaluatePopulation ::
  "ga \<Rightarrow> gene_store \<Rightarrow> nat chromosome list \<Rightarrow> nat chromosome list" where
  "evaluatePopulation g h pop = map (evaluateChromosome g h) pop"

text \<open>\<open>reduce\<close> without an initial value throws on an empty array.\<close>

definition getBestChromosome :: "'g chromosome list \<Rightarrow> error + 'g chromosome" where
  "getBestChromosome pop =
     (case pop of
        [] \<Rightarrow> Inl TypeError
      | c # cs \<Rightarrow>
          Inr (foldl (\<lambda>best current. if fitness current > fitness best then current else best)
                 c cs))"

subsection \<open>Mutation\<close>

text \<open>
  \<open>mutate\<close> writes into the gene object at a drawn position of the chromosome; the array
  of the chromosome is not touched, so the result is the new store. The draws are made in
  the order of the source: the position, the kind of mutation, then the candidate, the
  last only when the candidate list is not empty. Nothing catches a throw of the faculty
  filter here.
\<close>

definition mutate :: "ga \<Rightarrow> gene_store \<Rightarrow> nat chromosome \<Rightarrow> rng \<Rightarrow> error + gene_store \<times> rng" where
  "mutate g h c r =
     (if length (genes c) = 0 then Inr (h, r)
      else
        (let (geneRef, r1) = random_element (genes c) r;
             (mutationType, r2) = Math_random r1
         in (case geneRef of
               None \<Rightarrow> Inl TypeError
             | Some a \<Rightarrow>
                 if mutationType < 33 / 100
                 then
                   (let (newTimeSlot, r3) = random_element (ga_timeSlots g) r2
                    in (case newTimeSlot of
                          None \<Rightarrow> Inl TypeError
                        | Some ts \<Rightarrow> Inr (h[a := (h ! a)\<lparr> timeSlot := ts \<rparr>], r3)))
                 else if mutationType < 66 / 100
                 then
                   (case find (\<lambda>co. c_id co = courseId (h ! a)) (ga_courses g) of
                      None \<Rightarrow> Inr (h, r2)
                    | Some co \<Rightarrow>
                        (case eligibleFaculty g co of
                           Inl e \<Rightarrow> Inl e
                         | Inr facs \<Rightarrow>
                             if facs = [] then Inr (h, r2)
                             else
                               (let (newFaculty, r3) = random_element facs r2
                                in (case newFaculty of
                                      None \<Rightarrow> Inl TypeError
                                    | Some f \<Rightarrow>
                                        Inr (h[a := (h ! a)\<lparr> facultyId := f_id f,
                                                            facultyName := f_name f \<rparr>],
                                             r3)))))
                 else
                   (case find (\<lambda>co. c_id co = courseId (h ! a)) (ga_courses g) of
                      None \<Rightarrow> Inr (h, r2)
                    | Some co \<Rightarrow>
                        (case find (\<lambda>s. sectionName s = g_section (h ! a)) (sections co) of
                           None \<Rightarrow> Inr (h, r2)
                         | Some sec \<Rightarrow>
                             if eligibleRooms g co (sessionType (h ! a)) sec = []
                             then Inr (h, r2)
                             else
                               (let (newRoom, r3) =
                                      random_element
                                        (eligibleRooms g co (sessionType (h ! a)) sec) r2
                                in (case newRoom of
                                      None \<Rightarrow> Inl TypeError
                                    | Some rm \<Rightarrow>
                                        Inr (h[a := (h ! a)\<lparr> roomId := r_id rm,
                                                            roomNumber := r_roomNumber rm \<rparr>],
                                             r3))))))))"

subsection \<open>Selection, crossover and the next generation\<close>

fun tournamentSelection_loop ::
  "nat chromosome list \<Rightarrow> nat \<Rightarrow> nat chromosome option \<Rightarrow> rng
    \<Rightarrow> error + nat chromosome option \<times> rng" where
  "tournamentSelection_loop pop 0 best r = Inr (best, r)"
| "tournamentSelection_loop pop (Suc n) best r =
     (let (candidate, r1) = random_element pop r
      in (case candidate of
            None \<Rightarrow> Inl TypeError
          | Some c \<Rightarrow>
              tournamentSelection_loop pop n
                (case best of
                   None \<Rightarrow> Some c
                 | Some b \<Rightarrow> if fitness c > fitness b then Some c else Some b)
                r1))"

definition tournamentSelection ::
  "ga \<Rightarrow> nat chromosome list \<Rightarrow> rng \<Rightarrow> error + nat chromosome option \<times> rng" where
  "tournamentSelection g pop r = tournamentSelection_loop pop (tournamentSize g) None r"

definition crossover :: "nat chromosome \<Rightarrow> nat chromosome \<Rightarrow> rng \<Rightarrow> nat chromosome \<times> rng" where
  "crossover parent1 parent2 r =
     (let (x, r1) = Math_random r;
          crossoverPoint = nat \<lfloor>x * real (length (genes parent1))\<rfloor>
      in (\<lparr> genes = take crossoverPoint (genes parent1) @ drop crossoverPoint (genes parent2),
            fitness = 0, hardViolations = 0, softViolations = 0, details = None \<rparr>, r1))"

text \<open>
  One pass of the \<open>while\<close> loop of \<open>evolve\<close>: two parents, an offspring by crossover or
  by copy, possibly mutated. A parent that is \<open>null\<close> (a tournament of size 0, which the
  constructor never sets) is reported as the \<open>TypeError\<close> it leads to.
\<close>

definition make_offspring ::
  "ga \<Rightarrow> nat chromosome list \<Rightarrow> gene_store \<Rightarrow> rng
    \<Rightarrow> error + gene_store \<times> nat chromosome \<times> rng" where
  "make_offspring g pop h r =
     (case tournamentSelection g pop r of
        Inl e \<Rightarrow> Inl e
      | Inr (parent1, r1) \<Rightarrow>
          (case tournamentSelection g pop r1 of
             Inl e \<Rightarrow> Inl e
           | Inr (parent2, r2) \<Rightarrow>
               (case (parent1, parent2) of
                  (Some p1, Some p2) \<Rightarrow>
                    (let (x, r3) = Math_random r2;
                         (h1, offspring, r4) =
                           (if x < crossoverRate g
                            then (let (off, r') = crossover p1 p2 r3 in (h, off, r'))
                            else (let (h', off) = json_copy h p1 in (h', off, r3)));
                         (y, r5) = Math_random r4
                     in if y < mutationRate g
                        then (case mutate g h1 offspring r5 of
                                Inl e \<Rightarrow> Inl e
                              | Inr (h2, r6) \<Rightarrow> Inr (h2, offspring, r6))
                        else Inr (h1, offspring, r5))
                | _ \<Rightarrow> Inl TypeError)))"

function breed ::
  "ga \<Rightarrow> nat chromosome list \<Rightarrow> gene_store \<Rightarrow> nat chromosome list \<Rightarrow> rng
    \<Rightarrow> error + gene_store \<times> nat chromosome list \<times> rng" where
  "breed g pop h newPopulation r =
     (if length newPopulation < populationSize g
      then (case make_offspring g pop h r of
              Inl e \<Rightarrow> Inl e
            | Inr (h', offspring, r') \<Rightarrow> breed g pop h' (newPopulation @ [offspring]) r')
      else Inr (h, newPopulation, r))"
  by pat_completeness auto
termination
  by (relation "measure (\<lambda>(g, pop, h, newPopulation, r). populationSize g - length newPopulation)")
    auto

declare breed.simps [simp del]

text \<open>
  \<open>evolve\<close>: the elites are JSON copies of the first \<open>elitismCount\<close> chromosomes of the
  population sorted by descending fitness (the sort is stable); copying a position past
  the end parses \<open>undefined\<close> and throws a \<open>SyntaxError\<close>.
\<close>

definition evolve ::
  "ga \<Rightarrow> gene_store \<Rightarrow> nat chromosome list \<Rightarrow> rng
    \<Rightarrow> error + gene_store \<times> nat chromosome list \<times> rng" where
  "evolve g h pop r =
     (let sortedPopulation = sort_key (\<lambda>c. - fitness c) pop
      in if elitismCount g > length sortedPopulation then Inl SyntaxError
         else (let (h1, elites) = json_copy_all h (take (elitismCount g) sortedPopulation)
               in breed g pop h1 elites r))"

subsection \<open>The optimisation loop\<close>

record history_entry =
  generation :: nat
  bestFitness :: real
  avgFitness :: real
  h_hardViolations :: int
  h_softViolations :: int

record ga_state =
  heap :: gene_store
  population :: "nat chromosome list"
  bestChromosome :: "gene chromosome option"
  generationHistory :: "history_entry list"

text \<open>The best-so-far is replaced by a copy of the current best only on a strictly higher fitness.\<close>

definition track_best :: "gene chromosome option \<Rightarrow> gene chromosome \<Rightarrow> gene chromosome" where
  "track_best best currentBest =
     (case best of
        None \<Rightarrow> currentBest
      | Some b \<Rightarrow> if fitness currentBest > fitness b then currentBest else b)"

text \<open>
  The body of the loop for one generation, without the progress callback and the console
  output: evaluate, track the best, record the statistics, stop on a perfect solution,
  otherwise evolve. The flag of the result says whether the loop breaks.
\<close>

definition generation_step ::
  "ga \<Rightarrow> nat \<Rightarrow> ga_state \<Rightarrow> rng \<Rightarrow> error + ga_state \<times> rng \<times> bool" where
  "generation_step g gen s r =
     (let pop = evaluatePopulation g (heap s) (population s)
      in (case getBestChromosome pop of
            Inl e \<Rightarrow> Inl e
          | Inr currentBest \<Rightarrow>
              (let best = track_best (bestChromosome s) (load (heap s) currentBest);
                   fitnesses = map fitness pop;
                   entry = \<lparr> generation = gen,
                             bestFitness = foldl max (hd fitnesses) (tl fitnesses),
                             avgFitness = sum_list fitnesses / real (length fitnesses),
                             h_hardViolations = hardViolations best,
                             h_softViolations = softViolations best \<rparr>;
                   s1 = s\<lparr> population := pop, bestChromosome := Some best,
                           generationHistory := generationHistory s @ [entry] \<rparr>
               in if hardViolations best = 0 \<and> fitness best > 950 then Inr (s1, r, True)
                  else (case evolve g (heap s) pop r of
                          Inl e \<Rightarrow> Inl e
                        | Inr (h', pop', r') \<Rightarrow>
                            Inr (s1\<lparr> heap := h', population := pop' \<rparr>, r', False)))))"

fun evolution_loop ::
  "ga \<Rightarrow> nat \<Rightarrow> nat \<Rightarrow> ga_state \<Rightarrow> rng \<Rightarrow> error + ga_state \<times> rng" where
  "evolution_loop g 0 gen s r = Inr (s, r)"
| "evolution_loop g (Suc n) gen s r =
     (case generation_step g gen s r of
        Inl e \<Rightarrow> Inl e
      | Inr (s', r', stop) \<Rightarrow>
          if stop then Inr (s', r') else evolution_loop g n (Suc gen) s' r')"

text \<open>
  The fitness of the best-so-far at the end of each generation of the loop that completes,
  in order.
\<close>

fun best_fitness_trace :: "ga \<Rightarrow> nat \<Rightarrow> nat \<Rightarrow> ga_state \<Rightarrow> rng \<Rightarrow> real list" where
  "best_fitness_trace g 0 gen s r = []"
| "best_fitness_trace g (Suc n) gen s r =
     (case generation_step g gen s r of
        Inl e \<Rightarrow> []
      | Inr (s', r', stop) \<Rightarrow>
          (case bestChromosome s' of None \<Rightarrow> [] | Some b \<Rightarrow> [fitness b])
          @ (if stop then [] else best_fitness_trace g n (Suc gen) s' r'))"

text \<open>
  The result of a run, without the wall-clock \<open>computationTime\<close>. \<open>optimize\<close> is modelled
  on a driver that has not run before: no best-so-far and an empty history.
\<close>

record result =
  schedule :: "gene chromosome"
  generations :: "history_entry list"

definition initial_state :: "gene_store \<Rightarrow> nat chromosome list \<Rightarrow> ga_state" where
  "initial_state h pop =
     \<lparr> heap = h, population = pop, bestChromosome = None, generationHistory = [] \<rparr>"

definition optimize :: "ga \<Rightarrow> rng \<Rightarrow> error + result" where
  "optimize g r =
     (case generateInitialPopulation g r of
        Inl e \<Rightarrow> Inl e
      | Inr (h, pop, r1) \<Rightarrow>
          (case evolution_loop g (maxGenerations g) 0 (initial_state h pop) r1 of
             Inl e \<Rightarrow> Inl e
           | Inr (s, r2) \<Rightarrow>
               (case bestChromosome s of
                  None \<Rightarrow> Inl TypeError
                | Some b \<Rightarrow> Inr \<lparr> schedule = b, generations = generationHistory s \<rparr>)))"

section \<open>Schedule.detectConflicts\<close>

text \<open>An entry of a stored schedule, with the fields the two audits read.\<close>

record entry =
  e_day :: day
  e_slotNumber :: int
  e_course :: string
  e_courseCode :: string
  e_sessionType :: session_type
  e_section :: string
  e_faculty :: string
  e_facultyName :: string
  e_room :: string
  e_roomNumber :: string
  e_duration :: "real option"
  e_consecutiveSlots :: int

datatype conflict_type =
  faculty_double_booking | room_double_booking | student_section_conflict

datatype severity = critical | high | medium | low

record conflict =
  k_type :: conflict_type
  k_severity :: severity
  k_description :: string
  k_faculty :: "string option"
  k_room :: "string option"
  k_section :: "string option"
  k_timeSlot :: string

text \<open>A \<open>Map\<close> from a key to the \<open>Set\<close> of the time keys seen for it.\<close>

definition seen_at :: "(string \<times> string list) list \<Rightarrow> string \<Rightarrow> string \<Rightarrow> bool" where
  "seen_at m k t = (case map_get m k of None \<Rightarrow> False | Some ts \<Rightarrow> t \<in> set ts)"

definition add_at ::
  "(string \<times> string list) list \<Rightarrow> string \<Rightarrow> string \<Rightarrow> (string \<times> string list) list" where
  "add_at m k t =
     map_set m k (List.insert t (case map_get m k of None \<Rightarrow> [] | Some ts \<Rightarrow> ts))"

definition time_key :: "entry \<Rightarrow> string" where
  "time_key e = day_name (e_day e) @ ''-'' @ show_int (e_slotNumber e)"

record detect_state =
  facultySchedule :: "(string \<times> string list) list"
  roomSchedule :: "(string \<times> string list) list"
  sectionSchedule :: "(string \<times> string list) list"
  found :: "conflict list"

definition detect_entry :: "detect_state \<Rightarrow> entry \<Rightarrow> detect_state" where
  "detect_entry st e =
     (let timeKey = time_key e;
          slot_text = day_name (e_day e) @ '' slot '' @ show_int (e_slotNumber e);
          c1 = (if seen_at (facultySchedule st) (e_faculty e) timeKey
                then [\<lparr> k_type = faculty_double_booking, k_severity = critical,
                        k_description =
                          ''Faculty '' @ e_facultyName e @ '' has multiple classes at '' @ slot_text,
                        k_faculty = Some (e_facultyName e), k_room = None, k_section = None,
                        k_timeSlot = timeKey \<rparr>]
                else []);
          c2 = (if seen_at (roomSchedule st) (e_room e) timeKey
                then [\<lparr> k_type = room_double_booking, k_severity = critical,
                        k_description =
                          ''Room '' @ e_roomNumber e @ '' is double-booked at '' @ slot_text,
                        k_faculty = None, k_room = Some (e_roomNumber e), k_section = None,
                        k_timeSlot = timeKey \<rparr>]
                else []);
          c3 = (if seen_at (sectionSchedule st) (e_section e) timeKey
                then [\<lparr> k_type = student_section_conflict, k_severity = critical,
                        k_description =
                          ''Section '' @ e_section e @ '' has overlapping classes at '' @ slot_text,
                        k_faculty = None, k_room = None, k_section = Some (e_section e),
                        k_timeSlot = timeKey \<rparr>]
                else [])
      in \<lparr> facultySchedule = add_at (facultySchedule st) (e_faculty e) timeKey,
           roomSchedule = add_at (roomSchedule st) (e_room e) timeKey,
           sectionSchedule = add_at (sectionSchedule st) (e_section e) timeKey,
           found = found st @ c1 @ c2 @ c3 \<rparr>)"

definition detectConflicts :: "entry list \<Rightarrow> conflict list" where
  "detectConflicts entries =
     found (foldl detect_entry
       \<lparr> facultySchedule = [], roomSchedule = [], sectionSchedule = [], found = [] \<rparr> entries)"

section \<open>ConstraintChecker\<close>

datatype constraint_type = hard | soft

datatype category =
  faculty_workload | room_allocation | time_slot_rules | student_section | lab_continuity
  | elective_grouping | preference | institutional_policy

record constraint =
  k_name :: string
  k_ctype :: constraint_type
  k_category :: category
  k_text :: string
  k_priority :: int
  k_weight :: real
  k_isActive :: bool

text \<open>\<open>s.includes(sub)\<close>\<close>

fun starts_with :: "string \<Rightarrow> string \<Rightarrow> bool" where
  "starts_with s [] = True"
| "starts_with [] (y # ys) = False"
| "starts_with (x # xs) (y # ys) = (x = y \<and> starts_with xs ys)"

fun str_includes :: "string \<Rightarrow> string \<Rightarrow> bool" where
  "str_includes [] sub = starts_with [] sub"
| "str_includes (x # xs) sub = (starts_with (x # xs) sub \<or> str_includes xs sub)"

text \<open>\<open>s.split(c)\<close>\<close>

fun split_on :: "char \<Rightarrow> string \<Rightarrow> string list" where
  "split_on c [] = [[]]"
| "split_on c (x # xs) =
     (if x = c then [] # split_on c xs
      else (case split_on c xs of [] \<Rightarrow> [[x]] | p # ps \<Rightarrow> (x # p) # ps))"

datatype violation_detail =
  Workload_max string real real real
  | Workload_min string real real real
  | Room_double string day int "string list"
  | Room_capacity string int int string
  | Section_conflict string day int "string list"
  | Section_gap "string option" "string option" int string
  | Lab_not_consecutive string string day int
  | Elective_overlap string string "string list"

record check_result =
  violated :: bool
  v_count :: nat
  v_details :: "violation_detail list"

definition result_of :: "violation_detail list \<Rightarrow> check_result" where
  "result_of vs = \<lparr> violated = length vs > 0, v_count = length vs, v_details = vs \<rparr>"

definition facultyHours_of :: "entry list \<Rightarrow> (string \<times> real) list" where
  "facultyHours_of es =
     foldl (\<lambda>facultyHours e.
              map_set facultyHours (e_faculty e)
                (js_or (map_get facultyHours (e_faculty e)) 0 + js_or (e_duration e) 1))
       [] es"

definition checkFacultyWorkloadConstraint ::
  "constraint \<Rightarrow> entry list \<Rightarrow> faculty list \<Rightarrow> check_result" where
  "checkFacultyWorkloadConstraint k es fs =
     (let facultyHours = facultyHours_of es
      in result_of
           (concat (map (\<lambda>f.
              (let assigned = js_or (map_get facultyHours (f_id f)) 0;
                   mx = js_or (f_maxHoursPerWeek f) 18;
                   mn = js_or (f_minHoursPerWeek f) 12
               in (if str_includes (k_name k) ''Max'' \<and> assigned > mx
                   then [Workload_max (f_name f) assigned mx (assigned - mx)] else [])
                  @ (if str_includes (k_name k) ''Min'' \<and> assigned < mn
                     then [Workload_min (f_name f) assigned mn (mn - assigned)] else [])))
              fs)))"

text \<open>
  The duplicate scan of the validator: the map holds the course code last set for a key; an
  entry whose key is present gives a violation naming both course codes.
\<close>

definition duplicate_scan ::
  "(entry \<Rightarrow> string) \<Rightarrow> (entry \<Rightarrow> string list \<Rightarrow> violation_detail) \<Rightarrow> entry list
    \<Rightarrow> violation_detail list" where
  "duplicate_scan key mk es =
     snd (foldl (\<lambda>(m, vs) e.
                   (map_set m (key e) (e_courseCode e),
                    (case map_get m (key e) of
                       None \<Rightarrow> vs
                     | Some code \<Rightarrow> vs @ [mk e [code, e_courseCode e]])))
            ([], []) es)"

definition room_slot_key :: "entry \<Rightarrow> string" where
  "room_slot_key e = e_room e @ ''-'' @ day_name (e_day e) @ ''-'' @ show_int (e_slotNumber e)"

definition section_slot_key :: "entry \<Rightarrow> string" where
  "section_slot_key e =
     e_section e @ ''-'' @ day_name (e_day e) @ ''-'' @ show_int (e_slotNumber e)"

definition checkRoomAllocationConstraint ::
  "constraint \<Rightarrow> entry list \<Rightarrow> room list \<Rightarrow> check_result" where
  "checkRoomAllocationConstraint k es rs =
     (let roomMap = new_Map (map (\<lambda>r. (r_id r, r)) rs);
          estimatedSize = 60
      in result_of
           ((if str_includes (k_name k) ''Double Booking''
             then duplicate_scan room_slot_key
                    (\<lambda>e cs. Room_double (e_roomNumber e) (e_day e) (e_slotNumber e) cs) es
             else [])
            @ (if str_includes (k_name k) ''Capacity''
               then concat (map (\<lambda>e.
                      (case map_get roomMap (e_room e) of
                         None \<Rightarrow> []
                       | Some rm \<Rightarrow>
                           if r_capacity rm < estimatedSize
                           then [Room_capacity (e_roomNumber e) (r_capacity rm) estimatedSize
                                   (e_courseCode e)]
                           else [])) es)
               else [])))"

definition checkTimeSlotConstraint :: "constraint \<Rightarrow> entry list \<Rightarrow> check_result" where
  "checkTimeSlotConstraint k es = result_of []"

definition section_day_slots :: "entry list \<Rightarrow> (string \<times> int list) list" where
  "section_day_slots es =
     foldl (\<lambda>sectionSchedules e.
              (let key = e_section e @ ''-'' @ day_name (e_day e);
                   m = (if map_has sectionSchedules key then sectionSchedules
                        else map_set sectionSchedules key [])
               in map_set m key (the (map_get m key) @ [e_slotNumber e])))
       [] es"

fun gap_violations :: "string \<Rightarrow> int list \<Rightarrow> violation_detail list" where
  "gap_violations key (a # b # slots) =
     (if b - a - 1 > 2
      then [Section_gap (element_at (split_on CHR ''-'' key) 0)
              (element_at (split_on CHR ''-'' key) 1) (b - a - 1)
              (show_int a @ '' and '' @ show_int b)]
      else [])
     @ gap_violations key (b # slots)"
| "gap_violations key slots = []"

definition checkStudentSectionConstraint :: "constraint \<Rightarrow> entry list \<Rightarrow> check_result" where
  "checkStudentSectionConstraint k es =
     result_of
       ((if str_includes (k_name k) ''Conflict'' \<or> str_includes (k_name k) ''No Student Section''
         then duplicate_scan section_slot_key
                (\<lambda>e cs. Section_conflict (e_section e) (e_day e) (e_slotNumber e) cs) es
         else [])
        @ (if str_includes (k_name k) ''Gap''
           then concat (map (\<lambda>(key, slots). gap_violations key (sort slots))
                  (section_day_slots es))
           else []))"

text \<open>The validator's lab check as the source has it: \<open>isConsecutive\<close> is the constant true.\<close>

definition checkLabContinuityConstraint :: "constraint \<Rightarrow> entry list \<Rightarrow> check_result" where
  "checkLabContinuityConstraint k es =
     (let labSessions = filter (\<lambda>e. e_sessionType e = lab_session) es;
          isConsecutive = True
      in result_of
           (concat (map (\<lambda>s.
              if e_consecutiveSlots s > 1
              then (if \<not> isConsecutive
                    then [Lab_not_consecutive (e_courseCode s) (e_section s) (e_day s)
                            (e_consecutiveSlots s)]
                    else [])
              else []) labSessions)))"

definition elective_groups ::
  "(string \<times> course) list \<Rightarrow> entry list \<Rightarrow> (string \<times> (string \<times> string list) list) list" where
  "elective_groups courseMap es =
     foldl (\<lambda>electiveGroups e.
              (case map_get courseMap (e_course e) of
                 None \<Rightarrow> electiveGroups
               | Some co \<Rightarrow>
                   (case electiveGroup co of
                      None \<Rightarrow> electiveGroups
                    | Some groupKey \<Rightarrow>
                        if isElective co \<and> groupKey \<noteq> []
                        then
                          (let groups = (if map_has electiveGroups groupKey then electiveGroups
                                         else map_set electiveGroups groupKey []);
                               grp = the (map_get groups groupKey);
                               grp1 = (if map_has grp (time_key e) then grp
                                       else map_set grp (time_key e) [])
                           in map_set groups groupKey
                                (map_set grp1 (time_key e)
                                   (the (map_get grp1 (time_key e)) @ [e_courseCode e])))
                        else electiveGroups)))
       [] es"

definition checkElectiveGroupingConstraint ::
  "constraint \<Rightarrow> entry list \<Rightarrow> course list \<Rightarrow> check_result" where
  "checkElectiveGroupingConstraint k es cs =
     (let courseMap = new_Map (map (\<lambda>c. (c_id c, c)) cs)
      in result_of
           (concat (map (\<lambda>(groupKey, timeSlots).
              concat (map (\<lambda>(timeKey, codes).
                if length codes > 1 then [Elective_overlap groupKey timeKey codes] else [])
                timeSlots))
              (elective_groups courseMap es))))"

definition checkConstraint ::
  "constraint \<Rightarrow> entry list \<Rightarrow> course list \<Rightarrow> faculty list \<Rightarrow> room list \<Rightarrow> check_result" where
  "checkConstraint k es cs fs rs =
     (case k_category k of
        faculty_workload \<Rightarrow> checkFacultyWorkloadConstraint k es fs
      | room_allocation \<Rightarrow> checkRoomAllocationConstraint k es rs
      | time_slot_rules \<Rightarrow> checkTimeSlotConstraint k es
      | student_section \<Rightarrow> checkStudentSectionConstraint k es
      | lab_continuity \<Rightarrow> checkLabContinuityConstraint k es
      | elective_grouping \<Rightarrow> checkElectiveGroupingConstraint k es cs
      | _ \<Rightarrow> \<lparr> violated = False, v_count = 0, v_details = [] \<rparr>)"

record violation =
  vi_constraint :: string
  vi_category :: category
  vi_description :: string
  vi_details :: "violation_detail list"
  vi_count :: nat
  vi_weight :: "real option"

record violations =
  vs_hard :: "violation list"
  vs_soft :: "violation list"

definition validate_constraint ::
  "entry list \<Rightarrow> course list \<Rightarrow> faculty list \<Rightarrow> room list \<Rightarrow> violations \<Rightarrow> constraint
    \<Rightarrow> violations" where
  "validate_constraint es cs fs rs vs k =
     (if \<not> k_isActive k then vs
      else
        (let res = checkConstraint k es cs fs rs
         in if violated res
            then (if k_ctype k = hard
                  then vs\<lparr> vs_hard := vs_hard vs @
                         [\<lparr> vi_constraint = k_name k, vi_category = k_category k,
                            vi_description = k_text k, vi_details = v_details res,
                            vi_count = (if v_count res = 0 then 1 else v_count res),
                            vi_weight = None \<rparr>] \<rparr>
                  else vs\<lparr> vs_soft := vs_soft vs @
                         [\<lparr> vi_constraint = k_name k, vi_category = k_category k,
                            vi_description = k_text k, vi_details = v_details res,
                            vi_count = (if v_count res = 0 then 1 else v_count res),
                            vi_weight = Some (k_weight k) \<rparr>] \<rparr>)
            else vs))"

definition validateSchedule ::
  "entry list \<Rightarrow> course list \<Rightarrow> faculty list \<Rightarrow> room list \<Rightarrow> constraint list \<Rightarrow> violations" where
  "validateSchedule es cs fs rs constraints =
     foldl (validate_constraint es cs fs rs) \<lparr> vs_hard = [], vs_soft = [] \<rparr> constraints"

subsection \<open>The default constraint catalog\<close>

definition mk_constraint ::
  "string \<Rightarrow> constraint_type \<Rightarrow> category \<Rightarrow> string \<Rightarrow> int \<Rightarrow> real \<Rightarrow> constraint" where
  "mk_constraint n t c d p w =
     \<lparr> k_name = n, k_ctype = t, k_category = c, k_text = d, k_priority = p, k_weight = w,
       k_isActive = True \<rparr>"

definition getDefaultConstraints :: "constraint list" where
  "getDefaultConstraints =
     [mk_constraint ''No Faculty Double Booking'' hard faculty_workload
        ''A faculty member cannot be assigned to multiple classes at the same time'' 10 100,
      mk_constraint ''No Room Double Booking'' hard room_allocation
        ''A room cannot be assigned to multiple classes at the same time'' 10 100,
      mk_constraint ''No Student Section Conflict'' hard student_section
        ''Students of a section cannot have multiple classes at the same time'' 10 100,
      mk_constraint ''Lab Session Continuity'' hard lab_continuity
        ''Lab sessions must be scheduled in consecutive time slots without breaks'' 9 90,
      mk_constraint ''Room Capacity Check'' hard room_allocation
        ''Room capacity must be sufficient for the section strength'' 9 90,
      mk_constraint ''Faculty Qualification Match'' hard faculty_workload
        ''Faculty must be qualified to teach the assigned course'' 9 90,
      mk_constraint ''Faculty Availability'' hard time_slot_rules
        ''Classes must be scheduled during faculty available hours'' 9 90,
      mk_constraint ''Elective Group No Overlap'' hard elective_grouping
        ''Electives in the same group must not be scheduled at the same time'' 8 80,
      mk_constraint ''Faculty Max Hours Per Week'' soft faculty_workload
        ''Faculty teaching hours should not exceed maximum weekly limit'' 8 70,
      mk_constraint ''Faculty Min Hours Per Week'' soft faculty_workload
        ''Faculty should be assigned minimum teaching hours'' 7 60,
      mk_constraint ''Workload Balance'' soft faculty_workload
        ''Teaching load should be balanced across faculty members'' 7 60,
      mk_constraint ''Minimize Student Gaps'' soft student_section
        ''Minimize idle time between classes for students'' 6 50,
      mk_constraint ''Faculty Preferred Time Slots'' soft preference
        ''Try to assign classes during faculty preferred time slots'' 5 40,
      mk_constraint ''Avoid Faculty Consecutive Hours'' soft faculty_workload
        ''Faculty should not teach more than 3 consecutive hours'' 6 50,
      mk_constraint ''Balanced Daily Distribution'' soft time_slot_rules
        ''Classes should be distributed evenly across days of the week'' 5 40,
      mk_constraint ''Course Preferred Days'' soft preference
        ''Schedule courses on their preferred days when possible'' 4 30,
      mk_constraint ''Room Utilization Optimization'' soft room_allocation
        ''Optimize room usage to avoid under-utilization'' 4 30,
      mk_constraint ''Lab Type Match'' soft room_allocation
        ''Assign labs to rooms with appropriate equipment'' 7 60]"

section \<open>Contracts of the specification\<close>

text \<open>
  Lab continuity as the specification words it: for every gene whose session type is lab
  and whose consecutive-slot count \<open>k\<close> is more than one, each of the slot numbers
  \<open>slot + 1\<close> to \<open>slot + k - 1\<close> that no gene with the same course, section, faculty, room
  and day occupies is one violation.
\<close>

definition neighbour_at :: "gene list \<Rightarrow> gene \<Rightarrow> int \<Rightarrow> bool" where
  "neighbour_at gs g j =
     list_ex (\<lambda>h. courseId h = courseId g \<and> g_section h = g_section g \<and>
                  facultyId h = facultyId g \<and> roomId h = roomId g \<and>
                  day (timeSlot h) = day (timeSlot g) \<and>
                  slotNumber (timeSlot h) = slotNumber (timeSlot g) + j) gs"

definition missing_neighbours :: "gene list \<Rightarrow> gene \<Rightarrow> nat" where
  "missing_neighbours gs g =
     length (filter (\<lambda>j. \<not> neighbour_at gs g j) [1 ..  consecutiveSlots g - 1])"

definition lab_continuity_contract :: "gene chromosome \<Rightarrow> nat" where
  "lab_continuity_contract c =
     sum_list (map (\<lambda>g. if sessionType g = lab_session \<and> consecutiveSlots g > 1
                          then missing_neighbours (genes c) g else 0) (genes c))"

text \<open>
  The references of the genes that point to no entity of the snapshot: faculty ids, room
  ids and course ids, one for each gene and kind.
\<close>

definition missing_references ::
  "gene chromosome \<Rightarrow> course list \<Rightarrow> faculty list \<Rightarrow> room list \<Rightarrow> nat" where
  "missing_references c cs fs rs =
     length (filter (\<lambda>g. facultyId g \<notin> set (map f_id fs)) (genes c))
     + length (filter (\<lambda>g. roomId g \<notin> set (map r_id rs)) (genes c))
     + length (filter (\<lambda>g. courseId g \<notin> set (map c_id cs)) (genes c))"

text \<open>
  The session count of a course as the specification words it: the ceiling of weekly
  hours over session duration for theory plus the same for lab, each term present only
  when the weekly hours are positive.
\<close>

definition session_count :: "course \<Rightarrow> nat" where
  "session_count c =
     (if hoursPerWeek (theoryHours c) > 0
      then nat \<lceil>hoursPerWeek (theoryHours c) / sessionDuration (theoryHours c)\<rceil> else 0)
     + (if hoursPerWeek (labHours c) > 0
        then nat \<lceil>hoursPerWeek (labHours c) / sessionDuration (labHours c)\<rceil> else 0)"

definition expected_gene_count :: "ga \<Rightarrow> nat" where
  "expected_gene_count g =
     sum_list (map (\<lambda>c. length (sections c) * session_count c) (ga_courses g))"

definition sessions_of :: "course \<Rightarrow> session list" where
  "sessions_of c = (case getRequiredSessions c of Inl e \<Rightarrow> [] | Inr sess \<Rightarrow> sess)"

text \<open>
  A faculty member is qualified for a course when one of the subjects names the course;
  the candidates of a course are the qualified members that are active.
\<close>

definition is_qualified :: "faculty \<Rightarrow> course \<Rightarrow> bool" where
  "is_qualified f c = list_ex (\<lambda>s. subj_courseId s = Some (c_id c)) (f_subjects f)"

definition active_qualified :: "ga \<Rightarrow> course \<Rightarrow> faculty list" where
  "active_qualified g c = filter (\<lambda>f. is_qualified f c \<and> f_isActive f) (ga_faculty g)"


text \<open>Every subject of every faculty member names a course.\<close>

definition subjects_have_courseId :: "ga \<Rightarrow> bool" where
  "subjects_have_courseId g =
     list_all (\<lambda>f. list_all (\<lambda>s. subj_courseId s \<noteq> None) (f_subjects f)) (ga_faculty g)"


text \<open>
  The three kinds of mutation, and the kind that a call of \<open>mutate\<close> takes: the second
  value of the generator decides, below 0.33 the time slot, below 0.66 the faculty
  member, otherwise the room.
\<close>

datatype mutation_kind = time_slot_mutation | faculty_mutation | room_mutation

definition drawn_kind :: "rng \<Rightarrow> mutation_kind" where
  "drawn_kind r =
     (let t = fst (Math_random (snd (Math_random r)))
      in if t < 33 / 100 then time_slot_mutation
         else if t < 66 / 100 then faculty_mutation
         else room_mutation)"

text \<open>The generator after \<open>n\<close> calls.\<close>

definition after_draws :: "nat \<Rightarrow> rng \<Rightarrow> rng" where
  "after_draws n r = (\<lambda>k. r (k + n))"

text \<open>
  The candidates of a gene: the active faculty members qualified for its course, and the
  rooms suitable for its course, its session type and the first section of the course
  that has its section name. There is none when the course or the section is not found.
\<close>

definition faculty_candidates :: "ga \<Rightarrow> gene \<Rightarrow> faculty list" where
  "faculty_candidates g old =
     (case find (\<lambda>co. c_id co = courseId old) (ga_courses g) of
        None \<Rightarrow> []
      | Some co \<Rightarrow> active_qualified g co)"

definition room_candidates :: "ga \<Rightarrow> gene \<Rightarrow> room list" where
  "room_candidates g old =
     (case find (\<lambda>co. c_id co = courseId old) (ga_courses g) of
        None \<Rightarrow> []
      | Some co \<Rightarrow>
          (case find (\<lambda>s. sectionName s = g_section old) (sections co) of
             None \<Rightarrow> []
           | Some sec \<Rightarrow> eligibleRooms g co (sessionType old) sec))"

text \<open>
  What one mutation may do to a gene: give it a time slot of the grid, the id and name of
  one of its faculty candidates, or the id and number of one of its room candidates.
\<close>

definition replaced_timeSlot :: "ga \<Rightarrow> gene \<Rightarrow> gene \<Rightarrow> bool" where
  "replaced_timeSlot g old new = list_ex (\<lambda>ts. new = old\<lparr> timeSlot := ts \<rparr>) (ga_timeSlots g)"

definition replaced_faculty :: "ga \<Rightarrow> gene \<Rightarrow> gene \<Rightarrow> bool" where
  "replaced_faculty g old new =
     list_ex (\<lambda>f. new = old\<lparr> facultyId := f_id f, facultyName := f_name f \<rparr>)
       (faculty_candidates g old)"

definition replaced_room :: "ga \<Rightarrow> gene \<Rightarrow> gene \<Rightarrow> bool" where
  "replaced_room g old new =
     list_ex (\<lambda>rm. new = old\<lparr> roomId := r_id rm, roomNumber := r_roomNumber rm \<rparr>)
       (room_candidates g old)"

text \<open>The fields of a gene that no mutation writes.\<close>

definition kept_fields :: "gene \<Rightarrow> gene \<Rightarrow> bool" where
  "kept_fields old new =
     (courseId new = courseId old \<and> courseCode new = courseCode old \<and>
      courseName new = courseName old \<and> g_section new = g_section old \<and>
      sessionType new = sessionType old \<and> duration new = duration old \<and>
      consecutiveSlots new = consecutiveSlots old)"

definition one_replacement :: "ga \<Rightarrow> gene \<Rightarrow> gene \<Rightarrow> bool" where
  "one_replacement g old new =
     (replaced_timeSlot g old new \<or> replaced_faculty g old new \<or> replaced_room g old new)"

text \<open>
  The outcome of one mutation of a gene, by the kind the call takes, with the generator
  it leaves. The time slot is always replaced. The faculty member and the room are
  replaced when the gene has a candidate; otherwise the gene stays as it is and no third
  value is drawn.
\<close>

definition mutation_outcome :: "ga \<Rightarrow> rng \<Rightarrow> gene \<Rightarrow> gene \<Rightarrow> rng \<Rightarrow> bool" where
  "mutation_outcome g r old new r' =
     (case drawn_kind r of
        time_slot_mutation \<Rightarrow> replaced_timeSlot g old new \<and> r' = after_draws 3 r
      | faculty_mutation \<Rightarrow>
          if faculty_candidates g old = [] then new = old \<and> r' = after_draws 2 r
          else replaced_faculty g old new \<and> r' = after_draws 3 r
      | room_mutation \<Rightarrow>
          if room_candidates g old = [] then new = old \<and> r' = after_draws 2 r
          else replaced_room g old new \<and> r' = after_draws 3 r)"

text \<open>
  A snapshot names its courses and sections apart when no two courses share an id and no
  two sections of a course share a name.
\<close>

definition names_apart :: "ga \<Rightarrow> bool" where
  "names_apart g =
     (distinct (map c_id (ga_courses g)) \<and>
      list_all (\<lambda>co. distinct (map sectionName (sections co))) (ga_courses g))"

text \<open>
  The three key families of the double-booking checks, as triples of the entity, the day
  and the slot number, and the string that a template literal builds from a triple.
\<close>

definition faculty_slot :: "gene \<Rightarrow> string \<times> day \<times> int" where
  "faculty_slot g = (facultyId g, day (timeSlot g), slotNumber (timeSlot g))"

definition room_slot :: "gene \<Rightarrow> string \<times> day \<times> int" where
  "room_slot g = (roomId g, day (timeSlot g), slotNumber (timeSlot g))"

definition section_slot :: "gene \<Rightarrow> string \<times> day \<times> int" where
  "section_slot g = (g_section g, day (timeSlot g), slotNumber (timeSlot g))"

definition key_string :: "string \<times> day \<times> int \<Rightarrow> string" where
  "key_string k = fst k @ ''-'' @ day_name (fst (snd k)) @ ''-'' @ show_int (snd (snd k))"

section \<open>Concrete inputs\<close>

definition default_weights :: weights where
  "default_weights = FitnessCalculator (\<lambda>k. None)"

definition slot_mon1 :: time_slot where
  "slot_mon1 = \<lparr> day = Monday, slotNumber = 1, startTime = ''09:00'', endTime = ''10:00'' \<rparr>"

definition slot_mon2 :: time_slot where
  "slot_mon2 = \<lparr> day = Monday, slotNumber = 2, startTime = ''10:00'', endTime = ''11:00'' \<rparr>"

text \<open>A theory class of CS101, section A, Monday slot 1, faculty F1, room R1.\<close>

definition gene_a :: gene where
  "gene_a =
     \<lparr> courseId = ''c1'', courseCode = ''CS101'', courseName = ''Programming'',
       g_section = ''A'', sessionType = theory_session, timeSlot = slot_mon1,
       facultyId = ''f1'', facultyName = ''F1'', roomId = ''r1'', roomNumber = ''R1'',
       duration = 1, consecutiveSlots = 1 \<rparr>"

text \<open>A class of CS102 for the same section in the same slot, with another teacher and room.\<close>

definition gene_b :: gene where
  "gene_b =
     \<lparr> courseId = ''c2'', courseCode = ''CS102'', courseName = ''Algorithms'',
       g_section = ''A'', sessionType = theory_session, timeSlot = slot_mon1,
       facultyId = ''f2'', facultyName = ''F2'', roomId = ''r2'', roomNumber = ''R2'',
       duration = 1, consecutiveSlots = 1 \<rparr>"

definition chromosome_of :: "'g list \<Rightarrow> 'g chromosome" where
  "chromosome_of gs =
     \<lparr> genes = gs, fitness = 0, hardViolations = 0, softViolations = 0, details = None \<rparr>"

text \<open>Two classes of one teacher in the same slot, in different rooms, for different sections.\<close>

definition entry_x :: entry where
  "entry_x =
     \<lparr> e_day = Monday, e_slotNumber = 1, e_course = ''c1'', e_courseCode = ''CS101'',
       e_sessionType = theory_session, e_section = ''A'', e_faculty = ''f1'',
       e_facultyName = ''F1'', e_room = ''r1'', e_roomNumber = ''R1'', e_duration = Some 1,
       e_consecutiveSlots = 1 \<rparr>"

definition entry_y :: entry where
  "entry_y =
     \<lparr> e_day = Monday, e_slotNumber = 1, e_course = ''c2'', e_courseCode = ''CS102'',
       e_sessionType = theory_session, e_section = ''B'', e_faculty = ''f1'',
       e_facultyName = ''F1'', e_room = ''r2'', e_roomNumber = ''R2'', e_duration = Some 1,
       e_consecutiveSlots = 1 \<rparr>"

text \<open>A lab of CS201 that needs two consecutive slots, alone in its chromosome.\<close>

definition gene_lab :: gene where
  "gene_lab =
     \<lparr> courseId = ''c3'', courseCode = ''CS201'', courseName = ''Systems Lab'',
       g_section = ''A'', sessionType = lab_session, timeSlot = slot_mon1,
       facultyId = ''f1'', facultyName = ''F1'', roomId = ''r3'', roomNumber = ''L1'',
       duration = 2, consecutiveSlots = 2 \<rparr>"

text \<open>A class in the room and slot of \<open>gene_a\<close>, for another section with another teacher.\<close>

definition gene_c :: gene where
  "gene_c =
     \<lparr> courseId = ''c2'', courseCode = ''CS102'', courseName = ''Algorithms'',
       g_section = ''B'', sessionType = theory_session, timeSlot = slot_mon1,
       facultyId = ''f2'', facultyName = ''F2'', roomId = ''r1'', roomNumber = ''R1'',
       duration = 1, consecutiveSlots = 1 \<rparr>"

text \<open>
  A small snapshot: CS101 with one weekly theory hour in sessions of one hour and one
  section A of 30 students; one teacher qualified for it, with a minimum of one hour a
  week; one classroom of 40 seats; two slots on Monday.
\<close>

definition course_cs101 :: course where
  "course_cs101 =
     \<lparr> c_id = ''c1'', c_courseCode = ''CS101'', c_courseName = ''Programming'',
       theoryHours = \<lparr> hoursPerWeek = 1, sessionDuration = 1 \<rparr>,
       labHours = \<lparr> hoursPerWeek = 0, sessionDuration = 2 \<rparr>,
       sections = [\<lparr> sectionName = ''A'', strength = 30 \<rparr>],
       isElective = False, electiveGroup = None, specificLabType = None \<rparr>"

definition faculty_f1 :: faculty where
  "faculty_f1 =
     \<lparr> f_id = ''f1'', f_name = ''F1'', f_subjects = [\<lparr> subj_courseId = Some ''c1'', subj_canTeach = True \<rparr>], f_availability = None,
       f_maxHoursPerWeek = None, f_minHoursPerWeek = Some 1, f_isActive = True \<rparr>"

definition room_r1 :: room where
  "room_r1 =
     \<lparr> r_id = ''r1'', r_roomNumber = ''R1'', r_capacity = 40, r_type = classroom,
       r_labType = None, r_isActive = True \<rparr>"

definition snapshot_small :: snapshot where
  "snapshot_small =
     \<lparr> s_courses = [course_cs101], s_faculty = [faculty_f1], s_rooms = [room_r1],
       s_timeSlots = [slot_mon1, slot_mon2] \<rparr>"

text \<open>A configuration with a seed: one chromosome, one generation.\<close>

definition config_seeded :: config where
  "config_seeded =
     \<lparr> cfg_populationSize = Some 1, cfg_maxGenerations = Some 1, cfg_mutationRate = None,
       cfg_crossoverRate = None, cfg_elitismCount = Some 1, cfg_tournamentSize = Some 1,
       cfg_weights = (\<lambda>k. None), cfg_seed = Some 42 \<rparr>"

definition ga_small :: ga where
  "ga_small = initialize (GeneticAlgorithm config_seeded) snapshot_small"

definition ga_no_slots :: ga where
  "ga_no_slots =
     initialize (GeneticAlgorithm config_seeded) (snapshot_small\<lparr> s_timeSlots := [] \<rparr>)"

definition ga_no_faculty :: ga where
  "ga_no_faculty =
     initialize (GeneticAlgorithm config_seeded) (snapshot_small\<lparr> s_faculty := [] \<rparr>)"

text \<open>
  The same teacher with a first subject that names no course, and the small snapshot with
  this teacher.
\<close>

definition faculty_draft :: faculty where
  "faculty_draft =
     faculty_f1\<lparr> f_subjects :=
       [\<lparr> subj_courseId = None, subj_canTeach = True \<rparr>,
        \<lparr> subj_courseId = Some ''c1'', subj_canTeach = True \<rparr>] \<rparr>"

definition ga_draft_subject :: ga where
  "ga_draft_subject =
     initialize (GeneticAlgorithm config_seeded) (snapshot_small\<lparr> s_faculty := [faculty_draft] \<rparr>)"

text \<open>
  CS101 with two entries for section A, the whole section of 100 students and a batch of
  30, and the small snapshot with this course, in a driver that mutates every offspring.
  The gene that random construction builds for the batch, with a generator that always
  returns 9/10, is \<open>gene_batch\<close>.
\<close>

definition course_batches :: course where
  "course_batches =
     course_cs101\<lparr> sections :=
       [\<lparr> sectionName = ''A'', strength = 100 \<rparr>, \<lparr> sectionName = ''A'', strength = 30 \<rparr>] \<rparr>"

definition ga_batches :: ga where
  "ga_batches =
     initialize (GeneticAlgorithm (config_seeded\<lparr> cfg_mutationRate := Some 1 \<rparr>))
       (snapshot_small\<lparr> s_courses := [course_batches] \<rparr>)"

definition gene_batch :: gene where
  "gene_batch = gene_a\<lparr> timeSlot := slot_mon2 \<rparr>"

text \<open>Three runs of the generator: always 0, always 1/2, always 9/10.\<close>

definition rnd_zero :: rng where
  "rnd_zero = (\<lambda>n. 0)"

definition rnd_half :: rng where
  "rnd_half = (\<lambda>n. 1 / 2)"

definition rnd_high :: rng where
  "rnd_high = (\<lambda>n. 9 / 10)"

text \<open>A chromosome evaluated without any violation, and a recorded best of fitness 500.\<close>

definition perfect :: "'g list \<Rightarrow> 'g chromosome" where
  "perfect gs =
     \<lparr> genes = gs, fitness = 1000, hardViolations = 0, softViolations = 0,
       details = Some \<lparr> hardConstraints = [], softConstraints = [] \<rparr> \<rparr>"

definition worse :: "gene chromosome" where
  "worse = (chromosome_of [gene_b])\<lparr> fitness := 500 \<rparr>"

section \<open>Facts about maps and keys\<close>

lemma map_of_map_set: "map_of (map_set m k v) = (map_of m)(k \<mapsto> v)"
  by (induction m) (auto simp: fun_eq_iff)

lemma map_has_map_set: "map_has (map_set m k v) k' = (k' = k \<or> map_has m k')"
  by (simp add: map_has_def map_of_map_set)

lemma map_of_new_Map_aux:
  "map_of (foldl (\<lambda>m (k, v). map_set m k v) m es) k = None \<longleftrightarrow>
     map_of m k = None \<and> k \<notin> fst ` set es"
proof (induction es arbitrary: m)
  case Nil
  then show ?case by simp
next
  case (Cons e es)
  obtain k' v' where e: "e = (k', v')" by (cases e)
  show ?case
    unfolding e using Cons.IH [of "map_set m k' v'"]
    by (auto simp: map_of_map_set)
qed

lemma map_get_new_Map_None: "map_get (new_Map es) k = None \<longleftrightarrow> k \<notin> fst ` set es"
  by (simp add: map_get_def new_Map_def map_of_new_Map_aux)

lemmas example_defs =
  chromosome_of_def gene_a_def gene_b_def gene_c_def gene_lab_def slot_mon1_def slot_mon2_def

lemmas key_defs =
  faculty_key_def room_key_def section_key_def section_day_key_def faculty_day_key_def
  show_int_def show_nat.simps digit_char_def

lemmas map_defs = map_has_def map_get_def new_Map_def

lemma default_weights_values:
  "facultyDoubleBooking default_weights = 1000"
  "roomDoubleBooking default_weights = 1000"
  "sectionConflict default_weights = 1000"
  "facultyUnavailable default_weights = 900"
  "labContinuity default_weights = 800"
  "roomCapacity default_weights = 800"
  "workloadExceeded default_weights = 100"
  "workloadUnderUtilized default_weights = 80"
  "studentGaps default_weights = 50"
  "facultyGaps default_weights = 40"
  "workloadBalance default_weights = 60"
  "consecutiveHours default_weights = 50"
  by (simp_all add: default_weights_def FitnessCalculator_def js_or_def)

section \<open>The fitness formula\<close>

lemma hard_round_trip:
  "sum_list (map (reported_penalty w) (hardConstraints (ev_details (calculate w c cs fs rs)))) =
     real (count (checkFacultyConflicts c)) * facultyDoubleBooking w
     + real (count (checkRoomConflicts c)) * roomDoubleBooking w
     + real (count (checkSectionConflicts c)) * sectionConflict w
     + real (checkFacultyAvailability c fs) * facultyUnavailable w
     + real (checkLabContinuity c) * labContinuity w
     + real (checkRoomCapacity c cs rs) * roomCapacity w"
  by (simp add: calculate_def Let_def weight_of_type_def)

lemma imbalance_nonneg: "0 \<le> imbalance (evaluateWorkloadBalance c fs)"
proof (cases "workload_of (genes c) = []")
  case True
  then show ?thesis by (simp add: evaluateWorkloadBalance_def)
next
  case False
  define ws where "ws = map snd (workload_of (genes c))"
  define m where "m = sum_list ws / real (length ws)"
  have "0 \<le> sum_list (map (\<lambda>w. (w - m) ^ 2) ws)"
    by (rule sum_list_nonneg) auto
  then have "0 \<le> sqrt (sum_list (map (\<lambda>w. (w - m) ^ 2) ws) / real (length ws))"
    by simp
  then show ?thesis
    using False by (simp add: evaluateWorkloadBalance_def Let_def ws_def m_def)
qed

lemma count_entry_if:
  fixes c :: int
  assumes "0 \<le> c"
  shows "(if 0 < c then reported_penalty w (Count_detail t c p) else 0) =
    real_of_int c * weight_of_type w t"
  using assms by (cases "0 < c") auto

lemma balance_entry_if:
  fixes c :: int
  assumes "0 \<le> c"
  shows "(if 0 < c then reported_penalty w (Balance_detail v (real_of_int c * x)) else 0) =
    real_of_int c * x"
  using assms by (cases "0 < c") auto

lemma workload_entry_if:
  fixes e u :: int
  assumes "0 \<le> e" "0 \<le> u"
  shows "(if 0 < e + u then reported_penalty w (Workload_detail e u p) else 0) =
    real_of_int e * workloadExceeded w + real_of_int u * workloadUnderUtilized w"
proof (cases "0 < e + u")
  case True
  then show ?thesis by simp
next
  case False
  with assms have "e = 0" "u = 0" by arith+
  then show ?thesis by simp
qed

lemma sum_list_if_entry:
  "sum_list (map f ((if b then [d] else []) @ rest)) =
     (if b then f d else (0::real)) + sum_list (map f rest)"
  by simp

lemma soft_entries_sum:
  fixes e u sg fg im ch :: int
  assumes "0 \<le> e" "0 \<le> u" "0 \<le> sg" "0 \<le> fg" "0 \<le> im" "0 \<le> ch"
  shows "sum_list (map (reported_penalty w)
     ((if e + u > 0
       then [Workload_detail e u
               (real_of_int e * workloadExceeded w + real_of_int u * workloadUnderUtilized w)]
       else [])
      @ (if sg > 0 then [Count_detail ''student_gaps'' sg (real_of_int sg * studentGaps w)] else [])
      @ (if fg > 0 then [Count_detail ''faculty_gaps'' fg (real_of_int fg * facultyGaps w)] else [])
      @ (if im > 0 then [Balance_detail v (real_of_int im * workloadBalance w)] else [])
      @ (if ch > 0
         then [Count_detail ''excessive_consecutive_hours'' ch (real_of_int ch * consecutiveHours w)]
         else []) @ [])) =
     real_of_int e * workloadExceeded w + real_of_int u * workloadUnderUtilized w
     + real_of_int sg * studentGaps w + real_of_int fg * facultyGaps w
     + real_of_int im * workloadBalance w + real_of_int ch * consecutiveHours w"
  unfolding sum_list_if_entry
  by (simp add: weight_of_type_def count_entry_if balance_entry_if workload_entry_if assms
        split del: if_split)

lemma soft_round_trip:
  assumes "0 \<le> calculateStudentGaps c" "0 \<le> calculateFacultyGaps c"
  shows "sum_list (map (reported_penalty w) (softConstraints (ev_details (calculate w c cs fs rs)))) =
     real (exceeded (checkWorkloadConstraints c fs)) * workloadExceeded w
     + real (underUtilized (checkWorkloadConstraints c fs)) * workloadUnderUtilized w
     + real_of_int (calculateStudentGaps c) * studentGaps w
     + real_of_int (calculateFacultyGaps c) * facultyGaps w
     + real_of_int (imbalance (evaluateWorkloadBalance c fs)) * workloadBalance w
     + real (checkConsecutiveHours c fs) * consecutiveHours w"
  using soft_entries_sum [OF _ _ assms imbalance_nonneg [of c fs],
      of "int (exceeded (checkWorkloadConstraints c fs))"
         "int (underUtilized (checkWorkloadConstraints c fs))"
         "int (checkConsecutiveHours c fs)" w "variance (evaluateWorkloadBalance c fs)"]
  by (simp add: calculate_def Let_def split del: if_split)

text \<open>
  For every chromosome the fitness is \<open>max(0, 1000 - total)\<close> for the total of the
  twelve counts that the evaluator computes, each times its weight.
\<close>

lemma fitness_penalty_total:
  "ev_fitness (calculate w c cs fs rs) = max 0 (1000 - penalty_total w c cs fs rs)"
  by (simp add: calculate_def Let_def penalty_total_def algebra_simps)

text \<open>
  C1, as the code has it. When neither the student gap total nor the faculty gap total is
  negative, the fitness is \<open>max(0, 1000 - total)\<close>, where the total is the round trip of
  the returned breakdown through the weight table: the sum over its entries of the
  reported count times the weight of that entry, with any weight table (the
  \<open>workload_balance\<close> entry reports its penalty, not its count).
\<close>

theorem calculate_fitness_formula:
  assumes "0 \<le> calculateStudentGaps c" and "0 \<le> calculateFacultyGaps c"
  shows "ev_fitness (calculate w c cs fs rs) =
    round_trip_fitness w (ev_details (calculate w c cs fs rs))"
proof -
  have "sum_list (map (reported_penalty w)
          (hardConstraints (ev_details (calculate w c cs fs rs))
           @ softConstraints (ev_details (calculate w c cs fs rs)))) = penalty_total w c cs fs rs"
    using assms by (simp add: hard_round_trip soft_round_trip penalty_total_def)
  then show ?thesis
    by (simp add: round_trip_fitness_def fitness_penalty_total)
qed

text \<open>
  The formula at a chromosome with a room double-booking and no negative gap total: two
  classes in room R1 on Monday slot 1, for two sections with two teachers.
\<close>

lemma room_clash_gaps:
  "calculateStudentGaps (chromosome_of [gene_a, gene_c]) = 0"
  "calculateFacultyGaps (chromosome_of [gene_a, gene_c]) = 0"
  by (simp_all add: calculateStudentGaps_def calculateFacultyGaps_def group_slots_def
        example_defs key_defs map_defs)

theorem calculate_fitness_formula_witness:
  "0 \<le> calculateStudentGaps (chromosome_of [gene_a, gene_c]) \<and>
   0 \<le> calculateFacultyGaps (chromosome_of [gene_a, gene_c]) \<and>
   ev_fitness (calculate default_weights (chromosome_of [gene_a, gene_c]) [] [] []) =
     round_trip_fitness default_weights
       (ev_details (calculate default_weights (chromosome_of [gene_a, gene_c]) [] [] []))"
  using calculate_fitness_formula [of "chromosome_of [gene_a, gene_c]" default_weights "[]" "[]" "[]"]
  by (simp add: room_clash_gaps)

text \<open>
  Two classes of one section in the same slot, with different teachers and rooms, and an
  empty snapshot: one section conflict, and a student gap total of -1.
\<close>

lemma section_clash_counts:
  "count (checkFacultyConflicts (chromosome_of [gene_a, gene_b])) = 0"
  "count (checkRoomConflicts (chromosome_of [gene_a, gene_b])) = 0"
  "count (checkSectionConflicts (chromosome_of [gene_a, gene_b])) = 1"
  by (simp_all add: checkFacultyConflicts_def checkRoomConflicts_def checkSectionConflicts_def
        example_defs key_defs map_defs)

lemma empty_snapshot_checks:
  "checkFacultyAvailability c [] = 0"
  "checkRoomCapacity c [] [] = 0"
  "checkWorkloadConstraints c [] = \<lparr> exceeded = 0, underUtilized = 0 \<rparr>"
  by (simp_all add: checkFacultyAvailability_def gene_unavailable_def checkRoomCapacity_def
        gene_over_capacity_def checkWorkloadConstraints_def map_defs)

lemma checkLabContinuity_zero: "checkLabContinuity c = 0"
  by (simp add: checkLabContinuity_def)

lemma section_clash_soft:
  "calculateStudentGaps (chromosome_of [gene_a, gene_b]) = - 1"
  "calculateFacultyGaps (chromosome_of [gene_a, gene_b]) = 0"
  "imbalance (evaluateWorkloadBalance (chromosome_of [gene_a, gene_b]) []) = 0"
  "checkConsecutiveHours (chromosome_of [gene_a, gene_b]) [] = 0"
  by (simp_all add: calculateStudentGaps_def calculateFacultyGaps_def group_slots_def
        evaluateWorkloadBalance_def workload_of_def js_or_def checkConsecutiveHours_def
        example_defs key_defs map_defs)

lemma section_clash_evaluation:
  "calculate default_weights (chromosome_of [gene_a, gene_b]) [] [] [] =
     \<lparr> ev_fitness = 50, ev_hardViolations = 1, ev_softViolations = - 1,
       ev_details = \<lparr> hardConstraints = [Count_detail ''section_conflict'' 1 1000],
                      softConstraints = [] \<rparr> \<rparr>"
  by (simp add: calculate_def section_clash_counts empty_snapshot_checks
        checkLabContinuity_zero section_clash_soft default_weights_values)

text \<open>
  C1 as stated fails there: the fitness is 50, and the round trip of the returned
  breakdown gives 0.
\<close>

theorem fitness_round_trip_counterexample:
  "ev_fitness (calculate default_weights (chromosome_of [gene_a, gene_b]) [] [] []) = 50 \<and>
   round_trip_fitness default_weights
     (ev_details (calculate default_weights (chromosome_of [gene_a, gene_b]) [] [] [])) = 0"
  by (simp add: section_clash_evaluation round_trip_fitness_def weight_of_type_def
        default_weights_values)

section \<open>Lab continuity\<close>

text \<open>
  C2. A lone lab gene that needs two consecutive slots: the contract of the specification
  counts one missing neighbour, the check of the evaluator counts none.
\<close>

theorem lone_lab_not_counted:
  "checkLabContinuity (chromosome_of [gene_lab]) = 0 \<and>
   lab_continuity_contract (chromosome_of [gene_lab]) = 1"
  by (simp add: checkLabContinuity_zero lab_continuity_contract_def missing_neighbours_def
        neighbour_at_def example_defs)

section \<open>Double bookings\<close>

lemma card_diff_le_length: "card (set ks - S) \<le> length ks"
proof -
  have "card (set ks - S) \<le> card (set ks)" by (rule card_mono) auto
  also have "\<dots> \<le> length ks" by (rule card_length)
  finally show ?thesis .
qed

lemma scan_keys_count:
  "count (scan_keys ks seen n) = n + length ks - card (set ks - {k. map_has seen k})"
proof (induction ks arbitrary: seen n)
  case Nil
  then show ?case by simp
next
  case (Cons k ks)
  let ?S = "{k'. map_has seen k'}"
  have S': "{k'. map_has (map_set seen k True) k'} = insert k ?S"
    by (auto simp: map_has_map_set)
  have le: "card (set ks - insert k ?S) \<le> length ks"
    by (rule card_diff_le_length)
  show ?case
  proof (cases "map_has seen k")
    case True
    then have eq: "set (k # ks) - ?S = set ks - insert k ?S" by auto
    have "count (scan_keys (k # ks) seen n) = count (scan_keys ks (map_set seen k True) (n + 1))"
      using True by simp
    also have "\<dots> = n + 1 + length ks - card (set ks - insert k ?S)"
      unfolding Cons.IH S' ..
    also have "\<dots> = n + length (k # ks) - card (set (k # ks) - ?S)"
      unfolding eq by simp
    finally show ?thesis .
  next
    case False
    then have split: "set (k # ks) - ?S = insert k (set ks - insert k ?S)" by auto
    have "card (insert k (set ks - insert k ?S)) = Suc (card (set ks - insert k ?S))"
      by (rule card_insert_disjoint) simp_all
    then have eq: "card (set (k # ks) - ?S) = Suc (card (set ks - insert k ?S))"
      unfolding split .
    have "count (scan_keys (k # ks) seen n) = count (scan_keys ks (map_set seen k True) n)"
      using False by simp
    also have "\<dots> = n + length ks - card (set ks - insert k ?S)"
      unfolding Cons.IH S' ..
    also have "\<dots> = n + length (k # ks) - card (set (k # ks) - ?S)"
      unfolding eq using le by simp
    finally show ?thesis .
  qed
qed

lemma sum_duplicates:
  "(\<Sum>k\<in>set ks. count_list ks k - 1) = length ks - card (set ks)"
proof -
  have "(\<Sum>k\<in>set ks. count_list ks k - 1) =
      (\<Sum>k\<in>set ks. count_list ks k) - (\<Sum>k\<in>set ks. 1)"
  proof (rule sum_subtractf_nat)
    fix k assume "k \<in> set ks"
    then have "count_list ks k \<noteq> 0" by (simp add: count_list_0_iff)
    then show "1 \<le> count_list ks k" by simp
  qed
  also have "(\<Sum>k\<in>set ks. count_list ks k) = length ks"
    by (rule sum_count_set) simp_all
  finally show ?thesis by simp
qed

lemma count_list_map_filter: "count_list (map f xs) k = length (filter (\<lambda>x. f x = k) xs)"
  by (induction xs) auto

lemma scan_keys_duplicates:
  "count (scan_keys (map key gs) [] 0) =
     (\<Sum>k\<in>set (map key gs). length (filter (\<lambda>g. key g = k) gs) - 1)"
proof -
  have "set (map key gs) - {k. map_has ([] :: (string \<times> bool) list) k} = set (map key gs)"
    by (simp add: map_has_def)
  then have "count (scan_keys (map key gs) [] 0) = length (map key gs) - card (set (map key gs))"
    unfolding scan_keys_count by (simp only: add_0)
  also have "\<dots> = (\<Sum>k\<in>set (map key gs). count_list (map key gs) k - 1)"
    by (rule sum_duplicates [symmetric])
  also have "\<dots> = (\<Sum>k\<in>set (map key gs). length (filter (\<lambda>g. key g = k) gs) - 1)"
    by (simp only: count_list_map_filter)
  finally show ?thesis .
qed

text \<open>
  The keys are strings built by template literals. Two of them are equal exactly when the
  entity, the day and the slot number are equal: the day name holds no dash and the slot
  number is the last field.
\<close>

lemma digit_char_set: "digit_char n \<in> set ''0123456789''"
  unfolding digit_char_def by (rule nth_mem) simp

lemma digit_char_inj:
  assumes "digit_char n = digit_char m" "n < 10" "m < 10"
  shows "n = m"
proof -
  have "distinct ''0123456789''" by simp
  moreover have "n mod 10 < length ''0123456789''" "m mod 10 < length ''0123456789''" by simp_all
  ultimately have "n mod 10 = m mod 10"
    using assms(1) unfolding digit_char_def by (simp only: nth_eq_iff_index_eq)
  then show ?thesis using assms(2,3) by simp
qed

lemma show_nat_digits: "set (show_nat n) \<subseteq> set ''0123456789''"
proof (induction n rule: show_nat.induct)
  case (1 n)
  show ?case
  proof (cases "n < 10")
    case True
    then show ?thesis
      using digit_char_set [of n] by (subst show_nat.simps) simp
  next
    case False
    then show ?thesis
      using 1 digit_char_set [of "n mod 10"] by (subst show_nat.simps) simp
  qed
qed

lemma show_nat_not_Nil: "show_nat n \<noteq> []"
  by (subst show_nat.simps) simp

lemma show_nat_inj: "show_nat n = show_nat m \<Longrightarrow> n = m"
proof (induction n arbitrary: m rule: show_nat.induct)
  case (1 n)
  show ?case
  proof (cases "n < 10")
    case True
    note n = True
    show ?thesis
    proof (cases "m < 10")
      case True
      then have "digit_char n = digit_char m"
        using "1.prems" n by (simp add: show_nat.simps [of n] show_nat.simps [of m])
      then show ?thesis using n True by (rule digit_char_inj)
    next
      case False
      then have "length (show_nat m) = Suc (length (show_nat (m div 10)))"
        by (simp add: show_nat.simps [of m])
      moreover have "length (show_nat n) = 1"
        using n by (simp add: show_nat.simps [of n])
      ultimately show ?thesis
        using "1.prems" show_nat_not_Nil [of "m div 10"] by simp
    qed
  next
    case False
    note n = False
    show ?thesis
    proof (cases "m < 10")
      case True
      then have "length (show_nat m) = 1"
        by (simp add: show_nat.simps [of m])
      moreover have "length (show_nat n) = Suc (length (show_nat (n div 10)))"
        using n by (simp add: show_nat.simps [of n])
      ultimately show ?thesis
        using "1.prems" show_nat_not_Nil [of "n div 10"] by simp
    next
      case False
      then have eq: "show_nat (n div 10) = show_nat (m div 10)"
        and d: "digit_char (n mod 10) = digit_char (m mod 10)"
        using "1.prems" n by (simp_all add: show_nat.simps [of n] show_nat.simps [of m])
      have "n div 10 = m div 10" using n eq by (rule "1.IH")
      moreover have "n mod 10 = m mod 10" using d by (rule digit_char_inj) simp_all
      ultimately show ?thesis by (metis div_mult_mod_eq)
    qed
  qed
qed

lemma dash_not_digit: "CHR ''-'' \<notin> set (show_nat n)"
  using show_nat_digits [of n] by auto

lemma day_name_props:
  "day_name d \<noteq> []" "CHR ''-'' \<notin> set (day_name d)" "last (day_name d) \<noteq> CHR ''-''"
  by (cases d; simp)+

lemma day_name_inj: "day_name d = day_name d' \<Longrightarrow> d = d'"
  by (cases d; cases d'; simp)

lemma split_first:
  assumes "a @ c # b = a' @ c # b'" "c \<notin> set a" "c \<notin> set a'"
  shows "a = a' \<and> b = b'"
  using assms
proof (induction a arbitrary: a')
  case Nil
  then show ?case by (cases a') auto
next
  case (Cons x a)
  then show ?case by (cases a') auto
qed

lemma split_last:
  assumes "xs @ c # t = ys @ c # u" "c \<notin> set t" "c \<notin> set u"
  shows "xs = ys \<and> t = u"
proof -
  have "rev t @ c # rev xs = rev u @ c # rev ys"
    using arg_cong [OF assms(1), of rev] by simp
  moreover have "c \<notin> set (rev t)" "c \<notin> set (rev u)" using assms(2,3) by simp_all
  ultimately have "rev t = rev u \<and> rev xs = rev ys"
    by (rule split_first)
  then show ?thesis by simp
qed

lemma slot_key_inj:
  assumes "s @ ''-'' @ day_name d @ ''-'' @ show_int n = s' @ ''-'' @ day_name d' @ ''-'' @ show_int n'"
  shows "s = s' \<and> d = d' \<and> n = n'"
proof -
  define p where "p = s @ ''-'' @ day_name d"
  define p' where "p' = s' @ ''-'' @ day_name d'"
  have lastp: "last p \<noteq> CHR ''-''" "last p' \<noteq> CHR ''-''"
    using day_name_props by (simp_all add: p_def p'_def)
  have prefix: "p = p' \<Longrightarrow> s = s' \<and> d = d'"
  proof -
    assume "p = p'"
    then have "s @ CHR ''-'' # day_name d = s' @ CHR ''-'' # day_name d'"
      by (simp add: p_def p'_def)
    then have "s = s' \<and> day_name d = day_name d'"
      by (rule split_last) (simp_all add: day_name_props)
    then show ?thesis by (auto dest: day_name_inj)
  qed
  consider (pp) "0 \<le> n" "0 \<le> n'" | (nn) "n < 0" "n' < 0"
    | (pn) "0 \<le> n" "n' < 0" | (np) "n < 0" "0 \<le> n'" by linarith
  then show ?thesis
  proof cases
    case pp
    then have "p @ CHR ''-'' # show_nat (nat n) = p' @ CHR ''-'' # show_nat (nat n')"
      using assms by (simp add: p_def p'_def show_int_def)
    then have "p = p' \<and> show_nat (nat n) = show_nat (nat n')"
      by (rule split_last) (simp_all add: dash_not_digit)
    then show ?thesis using prefix pp by (auto dest: show_nat_inj)
  next
    case nn
    then have "(p @ ''-'') @ CHR ''-'' # show_nat (nat (- n)) =
        (p' @ ''-'') @ CHR ''-'' # show_nat (nat (- n'))"
      using assms by (simp add: p_def p'_def show_int_def)
    then have "p @ ''-'' = p' @ ''-'' \<and> show_nat (nat (- n)) = show_nat (nat (- n'))"
      by (rule split_last) (simp_all add: dash_not_digit)
    then show ?thesis using prefix nn by (auto dest: show_nat_inj)
  next
    case pn
    then have "p @ CHR ''-'' # show_nat (nat n) =
        (p' @ ''-'') @ CHR ''-'' # show_nat (nat (- n'))"
      using assms by (simp add: p_def p'_def show_int_def)
    then have "p = p' @ ''-''"
      using split_last [of p "CHR ''-''" "show_nat (nat n)" "p' @ ''-''" "show_nat (nat (- n'))"]
      by (simp add: dash_not_digit)
    then show ?thesis using lastp by simp
  next
    case np
    then have "(p @ ''-'') @ CHR ''-'' # show_nat (nat (- n)) =
        p' @ CHR ''-'' # show_nat (nat n')"
      using assms by (simp add: p_def p'_def show_int_def)
    then have "p @ ''-'' = p'"
      using split_last [of "p @ ''-''" "CHR ''-''" "show_nat (nat (- n))" p' "show_nat (nat n')"]
      by (simp add: dash_not_digit)
    then show ?thesis using lastp by auto
  qed
qed

lemma key_string_inj: "inj key_string"
proof (rule injI)
  fix k k' :: "string \<times> day \<times> int"
  assume "key_string k = key_string k'"
  then have "fst k = fst k' \<and> fst (snd k) = fst (snd k') \<and> snd (snd k) = snd (snd k')"
    unfolding key_string_def by (rule slot_key_inj)
  then show "k = k'" by (simp add: prod_eq_iff)
qed

lemma key_strings:
  "faculty_key = key_string \<circ> faculty_slot"
  "room_key = key_string \<circ> room_slot"
  "section_key = key_string \<circ> section_slot"
  by (simp_all add: fun_eq_iff faculty_key_def room_key_def section_key_def key_string_def
        faculty_slot_def room_slot_def section_slot_def)

lemma scan_keys_encoded:
  assumes "inj enc"
  shows "count (scan_keys (map (enc \<circ> tr) gs) [] 0) =
     (\<Sum>k\<in>set (map tr gs). length (filter (\<lambda>g. tr g = k) gs) - 1)"
proof -
  have "count (scan_keys (map (enc \<circ> tr) gs) [] 0) =
      (\<Sum>k\<in>set (map (enc \<circ> tr) gs). length (filter (\<lambda>g. (enc \<circ> tr) g = k) gs) - 1)"
    by (rule scan_keys_duplicates)
  also have "\<dots> = (\<Sum>k\<in>enc ` set (map tr gs). length (filter (\<lambda>g. enc (tr g) = k) gs) - 1)"
    by (simp add: image_image)
  also have "\<dots> = (\<Sum>k\<in>set (map tr gs). length (filter (\<lambda>g. enc (tr g) = enc k) gs) - 1)"
    using assms by (subst sum.reindex) (auto simp: inj_on_def dest: injD)
  also have "\<dots> = (\<Sum>k\<in>set (map tr gs). length (filter (\<lambda>g. tr g = k) gs) - 1)"
    using assms by (simp add: inj_eq)
  finally show ?thesis .
qed

text \<open>
  C6. Each of the three double-booking counts (faculty, room, section) is the sum, over the
  (entity, day, slot number) keys that occur in the chromosome, of the number of genes with
  that key minus one: m genes sharing a key are counted as m - 1 violations.
\<close>

theorem double_booking_counts:
  "count (checkFacultyConflicts c) =
     (\<Sum>k\<in>set (map faculty_slot (genes c)).
        length (filter (\<lambda>g. faculty_slot g = k) (genes c)) - 1) \<and>
   count (checkRoomConflicts c) =
     (\<Sum>k\<in>set (map room_slot (genes c)).
        length (filter (\<lambda>g. room_slot g = k) (genes c)) - 1) \<and>
   count (checkSectionConflicts c) =
     (\<Sum>k\<in>set (map section_slot (genes c)).
        length (filter (\<lambda>g. section_slot g = k) (genes c)) - 1)"
  unfolding checkFacultyConflicts_def checkRoomConflicts_def checkSectionConflicts_def key_strings
  by (intro conjI scan_keys_encoded key_string_inj)

section \<open>References to unknown entities\<close>

lemma filter_known:
  assumes "\<And>g. P g \<Longrightarrow> Q g"
  shows "filter P (filter Q gs) = filter P gs"
  using assms by (induction gs) auto

lemma unavailable_known:
  assumes "gene_unavailable (new_Map (map (\<lambda>f. (f_id f, f)) fs)) g"
  shows "facultyId g \<in> set (map f_id fs)"
proof (rule ccontr)
  assume "facultyId g \<notin> set (map f_id fs)"
  then have "map_get (new_Map (map (\<lambda>f. (f_id f, f)) fs)) (facultyId g) = None"
    by (simp add: map_get_new_Map_None image_image)
  with assms show False by (simp add: gene_unavailable_def)
qed

lemma over_capacity_known:
  assumes "gene_over_capacity (new_Map (map (\<lambda>r. (r_id r, r)) rs))
     (new_Map (map (\<lambda>c. (c_id c, c)) cs)) g"
  shows "roomId g \<in> set (map r_id rs) \<and> courseId g \<in> set (map c_id cs)"
proof
  show "roomId g \<in> set (map r_id rs)"
  proof (rule ccontr)
    assume "roomId g \<notin> set (map r_id rs)"
    then have "map_get (new_Map (map (\<lambda>r. (r_id r, r)) rs)) (roomId g) = None"
      by (simp add: map_get_new_Map_None image_image)
    with assms show False by (simp add: gene_over_capacity_def)
  qed
  show "courseId g \<in> set (map c_id cs)"
  proof (rule ccontr)
    assume "courseId g \<notin> set (map c_id cs)"
    then have "map_get (new_Map (map (\<lambda>c. (c_id c, c)) cs)) (courseId g) = None"
      by (simp add: map_get_new_Map_None image_image)
    with assms show False by (simp add: gene_over_capacity_def split: option.splits)
  qed
qed

text \<open>
  C8, as the code has it. The evaluation is a total function: no branch of it throws. A
  gene whose faculty id is not in the snapshot is skipped by the availability check, and a
  gene whose room id or course id is not in the snapshot is skipped by the capacity check:
  both checks give the same count with these genes removed.
\<close>

theorem unknown_references_skipped:
  "checkFacultyAvailability c fs =
     checkFacultyAvailability
       (c\<lparr> genes := filter (\<lambda>g. facultyId g \<in> set (map f_id fs)) (genes c) \<rparr>) fs \<and>
   checkRoomCapacity c cs rs =
     checkRoomCapacity
       (c\<lparr> genes := filter (\<lambda>g. roomId g \<in> set (map r_id rs) \<and> courseId g \<in> set (map c_id cs))
                      (genes c) \<rparr>) cs rs"
proof -
  have 1: "filter (gene_unavailable (new_Map (map (\<lambda>f. (f_id f, f)) fs)))
             (filter (\<lambda>g. facultyId g \<in> set (map f_id fs)) (genes c)) =
           filter (gene_unavailable (new_Map (map (\<lambda>f. (f_id f, f)) fs))) (genes c)"
    by (rule filter_known) (rule unavailable_known)
  have 2: "filter (gene_over_capacity (new_Map (map (\<lambda>r. (r_id r, r)) rs))
               (new_Map (map (\<lambda>c. (c_id c, c)) cs)))
             (filter (\<lambda>g. roomId g \<in> set (map r_id rs) \<and> courseId g \<in> set (map c_id cs))
                (genes c)) =
           filter (gene_over_capacity (new_Map (map (\<lambda>r. (r_id r, r)) rs))
               (new_Map (map (\<lambda>c. (c_id c, c)) cs))) (genes c)"
    by (rule filter_known) (rule over_capacity_known)
  show ?thesis
    unfolding checkFacultyAvailability_def checkRoomCapacity_def Let_def
    using 1 2 by (simp del: filter_filter)
qed

lemma lone_gene_evaluation:
  "ev_hardViolations (calculate default_weights (chromosome_of [gene_a]) [] [] []) = 0"
  by (simp add: calculate_def Let_def empty_snapshot_checks checkLabContinuity_zero
        checkFacultyConflicts_def checkRoomConflicts_def checkSectionConflicts_def
        example_defs key_defs map_defs)

text \<open>
  C8 as stated fails for one gene and an empty snapshot: its faculty, room and course are
  all unknown, three missing references, and the hard-violation count is 0.
\<close>

theorem unknown_references_counterexample:
  "missing_references (chromosome_of [gene_a]) [] [] [] = 3 \<and>
   ev_hardViolations (calculate default_weights (chromosome_of [gene_a]) [] [] []) = 0"
proof (intro conjI)
  show "missing_references (chromosome_of [gene_a]) [] [] [] = 3"
    by (simp add: missing_references_def chromosome_of_def)
  show "ev_hardViolations (calculate default_weights (chromosome_of [gene_a]) [] [] []) = 0"
    by (rule lone_gene_evaluation)
qed

section \<open>The fast pass and the validator\<close>

lemma faculty_clash_detected:
  "detectConflicts [entry_x, entry_y] =
     [\<lparr> k_type = faculty_double_booking, k_severity = critical,
        k_description = ''Faculty F1 has multiple classes at Monday slot 1'',
        k_faculty = Some ''F1'', k_room = None, k_section = None, k_timeSlot = ''Monday-1'' \<rparr>]"
  by (simp add: detectConflicts_def detect_entry_def entry_x_def entry_y_def time_key_def
        seen_at_def add_at_def map_get_def show_int_def show_nat.simps digit_char_def Let_def)

lemma faculty_clash_validated:
  "validateSchedule [entry_x, entry_y] [] [] [] getDefaultConstraints =
     \<lparr> vs_hard = [], vs_soft = [] \<rparr>"
  by (simp add: validateSchedule_def getDefaultConstraints_def mk_constraint_def
        validate_constraint_def checkConstraint_def checkFacultyWorkloadConstraint_def
        checkRoomAllocationConstraint_def checkTimeSlotConstraint_def
        checkStudentSectionConstraint_def checkLabContinuityConstraint_def
        checkElectiveGroupingConstraint_def result_of_def duplicate_scan_def room_slot_key_def
        section_slot_key_def elective_groups_def new_Map_def section_day_slots_def
        entry_x_def entry_y_def map_get_def map_has_def show_int_def show_nat.simps digit_char_def
        Let_def
        js_or_def)

text \<open>
  C3. Two classes of one teacher on Monday slot 1, in different rooms for different
  sections: the fast pass reports a faculty double-booking, and the validator, run on the
  same entries with the default catalog, reports no hard violation at all.
\<close>

theorem fast_pass_conflict_missed_by_validator:
  "map k_type (detectConflicts [entry_x, entry_y]) = [faculty_double_booking] \<and>
   vs_hard (validateSchedule [entry_x, entry_y] [] [] [] getDefaultConstraints) = []"
  by (simp add: faculty_clash_detected faculty_clash_validated)

section \<open>Random construction\<close>

lemma Math_random_range: "0 \<le> fst (Math_random r) \<and> fst (Math_random r) < 1"
  by (simp add: Math_random_def frac_lt_1)

lemma element_at_floor:
  assumes "xs \<noteq> []" "0 \<le> x" "x < 1"
  shows "\<exists>y. element_at xs \<lfloor>x * real (length xs)\<rfloor> = Some y \<and> y \<in> set xs"
proof -
  have len: "0 < real (length xs)" using assms(1) by simp
  have "0 \<le> x * real (length xs)" using assms(2) by simp
  then have lo: "0 \<le> \<lfloor>x * real (length xs)\<rfloor>" by simp
  have "x * real (length xs) < real (length xs)" using assms(3) len by simp
  then have hi: "\<lfloor>x * real (length xs)\<rfloor> < int (length xs)"
    by (simp add: floor_less_iff)
  then have "nat \<lfloor>x * real (length xs)\<rfloor> < length xs" using lo by linarith
  then show ?thesis using lo hi by (simp add: element_at_def)
qed

lemma random_element_nonempty:
  assumes "xs \<noteq> []"
  shows "\<exists>y. fst (random_element xs r) = Some y \<and> y \<in> set xs"
  using element_at_floor [OF assms, of "fst (Math_random r)"] Math_random_range [of r]
  by (simp add: random_element_def split_beta)

text \<open>
  When the faculty filter returns, its result is the list of the active qualified members;
  it returns when every subject names a course.
\<close>

lemma subjects_some_Inr:
  "subjects_some ss cid = Inr b \<Longrightarrow> b = list_ex (\<lambda>s. subj_courseId s = Some cid) ss"
  by (induction ss) (auto split: option.splits if_splits)

lemma filter_faculty_Inr:
  "filter_faculty fs cid = Inr res \<Longrightarrow>
     res = filter (\<lambda>f. list_ex (\<lambda>s. subj_courseId s = Some cid) (f_subjects f) \<and> f_isActive f) fs"
proof (induction fs arbitrary: res)
  case Nil
  then show ?case by simp
next
  case (Cons f fs)
  from Cons.prems obtain b rest where b: "subjects_some (f_subjects f) cid = Inr b"
    and rest: "filter_faculty fs cid = Inr rest"
    and res: "res = (if b \<and> f_isActive f then f # rest else rest)"
    by (auto split: sum.splits)
  show ?case
    using subjects_some_Inr [OF b] Cons.IH [OF rest] res by simp
qed

lemma eligibleFaculty_Inr:
  "eligibleFaculty g c = Inr facs \<Longrightarrow> facs = active_qualified g c"
  unfolding eligibleFaculty_def active_qualified_def is_qualified_def
  by (rule filter_faculty_Inr)

lemma subjects_some_returns:
  "list_all (\<lambda>s. subj_courseId s \<noteq> None) ss \<Longrightarrow> \<exists>b. subjects_some ss cid = Inr b"
  by (induction ss) auto

lemma filter_faculty_returns:
  assumes "list_all (\<lambda>f. list_all (\<lambda>s. subj_courseId s \<noteq> None) (f_subjects f)) fs"
  shows "\<exists>res. filter_faculty fs cid = Inr res"
  using assms
proof (induction fs)
  case Nil
  then show ?case by simp
next
  case (Cons f fs)
  obtain b where "subjects_some (f_subjects f) cid = Inr b"
    using subjects_some_returns [of "f_subjects f" cid] Cons.prems by auto
  moreover obtain rest where "filter_faculty fs cid = Inr rest"
    using Cons.IH Cons.prems by auto
  ultimately show ?case by simp
qed

lemma eligibleFaculty_returns:
  assumes "subjects_have_courseId g"
  shows "eligibleFaculty g c = Inr (active_qualified g c)"
proof -
  obtain res where res: "eligibleFaculty g c = Inr res"
    using filter_faculty_returns [of "ga_faculty g" "c_id c"] assms
    by (auto simp: subjects_have_courseId_def eligibleFaculty_def)
  then show ?thesis using eligibleFaculty_Inr [OF res] by simp
qed








section \<open>The small snapshot\<close>

lemmas ga_defs = ga_small_def ga_no_slots_def ga_no_faculty_def ga_draft_subject_def ga_batches_def
  initialize_def GeneticAlgorithm_def config_seeded_def snapshot_small_def nat_or_def js_or_def

lemma rnd_consts:
  "Math_random rnd_zero = (0, rnd_zero)"
  "Math_random rnd_half = (1 / 2, rnd_half)"
  "Math_random rnd_high = (9 / 10, rnd_high)"
  by (simp_all add: Math_random_def rnd_zero_def rnd_half_def rnd_high_def frac_def)

lemma sessions_cs101:
  "getRequiredSessions course_cs101 =
     Inr [\<lparr> s_type = theory_session, s_duration = 1, s_consecutiveSlots = 1 \<rparr>]"
  by (simp add: getRequiredSessions_def course_cs101_def)

lemma cs101_fields:
  "c_id course_cs101 = ''c1''"
  "c_courseCode course_cs101 = ''CS101''"
  "c_courseName course_cs101 = ''Programming''"
  "sections course_cs101 = [\<lparr> sectionName = ''A'', strength = 30 \<rparr>]"
  "session_count course_cs101 = 1"
  "sessions_of course_cs101 = [\<lparr> s_type = theory_session, s_duration = 1, s_consecutiveSlots = 1 \<rparr>]"
  by (simp_all add: sessions_of_def sessions_cs101 session_count_def) (simp_all add: course_cs101_def)

lemma small_fields:
  "ga_courses ga_small = [course_cs101]"
  "ga_faculty ga_small = [faculty_f1]"
  "ga_rooms ga_small = [room_r1]"
  "ga_timeSlots ga_small = [slot_mon1, slot_mon2]"
  "populationSize ga_small = 1"
  "maxGenerations ga_small = 1"
  "elitismCount ga_small = 1"
  "tournamentSize ga_small = 1"
  "fitnessCalculator ga_small = default_weights"
  by (simp_all add: ga_defs default_weights_def)

lemma f1_teaches:
  "subjects_some (f_subjects faculty_f1) ''c1'' = Inr True"
  "is_qualified faculty_f1 course_cs101"
  "f_isActive faculty_f1"
  by (simp_all add: faculty_f1_def is_qualified_def cs101_fields)

lemma small_eligible:
  "eligibleFaculty ga_small course_cs101 = Inr [faculty_f1]"
  "active_qualified ga_small course_cs101 = [faculty_f1]"
  "eligibleRooms ga_small course_cs101 theory_session \<lparr> sectionName = ''A'', strength = 30 \<rparr> = [room_r1]"
  by (simp_all add: eligibleFaculty_def active_qualified_def eligibleRooms_def isRoomSuitable_def
        small_fields cs101_fields f1_teaches room_r1_def)

lemma small_subjects: "subjects_have_courseId ga_small"
  by (simp add: subjects_have_courseId_def small_fields faculty_f1_def)


lemma small_expected: "expected_gene_count ga_small = 1"
  by (simp add: expected_gene_count_def small_fields cs101_fields)

lemma random_element_consts:
  "random_element xs rnd_zero = (element_at xs 0, rnd_zero)"
  "random_element xs rnd_half = (element_at xs \<lfloor>real (length xs) / 2\<rfloor>, rnd_half)"
  "random_element xs rnd_high = (element_at xs \<lfloor>9 * real (length xs) / 10\<rfloor>, rnd_high)"
  by (simp_all add: random_element_def rnd_consts)

lemma small_gene_zero:
  "createRandomGene ga_small course_cs101 \<lparr> sectionName = ''A'', strength = 30 \<rparr>
     \<lparr> s_type = theory_session, s_duration = 1, s_consecutiveSlots = 1 \<rparr> rnd_zero =
   (Some gene_a, rnd_zero)"
  by (simp add: createRandomGene_def small_eligible small_fields random_element_consts
        element_at_def cs101_fields gene_a_def faculty_f1_def room_r1_def)

lemma small_chromosome_zero:
  "createRandomChromosome ga_small rnd_zero = Inr (chromosome_of [gene_a], rnd_zero)"
  by (simp add: createRandomChromosome_def small_fields sessions_cs101 cs101_fields
        small_gene_zero chromosome_of_def)










section \<open>Requirements without a candidate\<close>













section \<open>Mutation\<close>

lemma element_at_in_set: "element_at xs i = Some y \<Longrightarrow> y \<in> set xs"
  by (auto simp: element_at_def split: if_splits)

lemma random_element_in_set: "fst (random_element xs r) = Some y \<Longrightarrow> y \<in> set xs"
  by (auto simp: random_element_def split_beta dest: element_at_in_set)

lemma after_draws_step:
  "snd (Math_random r) = after_draws (Suc 0) r"
  "snd (random_element xs r) = after_draws (Suc 0) r"
  "after_draws (Suc 0) (after_draws (Suc 0) r) = after_draws 2 r"
  "after_draws (Suc 0) (after_draws 2 r) = after_draws 3 r"
  by (simp_all add: Math_random_def random_element_def after_draws_def split_beta
        eval_nat_numeral)

lemma drawn_kind_cases:
  "fst (Math_random (after_draws (Suc 0) r)) < 33 / 100 \<Longrightarrow> drawn_kind r = time_slot_mutation"
  "\<not> fst (Math_random (after_draws (Suc 0) r)) < 33 / 100 \<Longrightarrow>
     fst (Math_random (after_draws (Suc 0) r)) < 66 / 100 \<Longrightarrow> drawn_kind r = faculty_mutation"
  "\<not> fst (Math_random (after_draws (Suc 0) r)) < 33 / 100 \<Longrightarrow>
     \<not> fst (Math_random (after_draws (Suc 0) r)) < 66 / 100 \<Longrightarrow> drawn_kind r = room_mutation"
  by (simp_all add: drawn_kind_def Let_def after_draws_step)

lemma time_replacement:
  assumes "fst (random_element (ga_timeSlots g) r) = Some ts"
  shows "replaced_timeSlot g old (old\<lparr> timeSlot := ts \<rparr>)"
  using random_element_in_set [OF assms]
  by (auto simp: replaced_timeSlot_def list_ex_iff)

lemma faculty_replacement:
  assumes "fst (random_element (faculty_candidates g old) r) = Some f"
  shows "replaced_faculty g old (old\<lparr> facultyId := f_id f, facultyName := f_name f \<rparr>)"
  using random_element_in_set [OF assms]
  by (auto simp: replaced_faculty_def list_ex_iff)

lemma room_replacement:
  assumes "fst (random_element (room_candidates g old) r) = Some rm"
  shows "replaced_room g old (old\<lparr> roomId := r_id rm, roomNumber := r_roomNumber rm \<rparr>)"
  using random_element_in_set [OF assms]
  by (auto simp: replaced_room_def list_ex_iff)

text \<open>
  The three branches of \<open>mutate\<close>, each as a function of the gene, the generator after the
  first two draws and the candidates.
\<close>

lemma mutate_time_branch:
  assumes "mutate g h c r = Inr (h', r')" "fst (random_element (genes c) r) = Some a"
    "genes c \<noteq> []" "drawn_kind r = time_slot_mutation"
  shows "\<exists>x. h' = h[a := x] \<and> kept_fields (h ! a) x \<and> replaced_timeSlot g (h ! a) x \<and>
    r' = after_draws 3 r"
proof -
  have mt: "fst (Math_random (after_draws (Suc 0) r)) < 33 / 100"
    using assms(4) by (auto simp: drawn_kind_def Let_def after_draws_step split: if_splits)
  obtain ts where ts: "fst (random_element (ga_timeSlots g) (after_draws 2 r)) = Some ts"
    and h': "h' = h[a := (h ! a)\<lparr> timeSlot := ts \<rparr>]" and r': "r' = after_draws 3 r"
    using assms(1,2,3) mt
    by (cases "fst (random_element (ga_timeSlots g) (after_draws 2 r))")
      (auto simp: mutate_def split_beta after_draws_step)
  show ?thesis
    using h' r' time_replacement [OF ts, of "h ! a"] by (auto simp: kept_fields_def)
qed

lemma mutate_faculty_branch:
  assumes "mutate g h c r = Inr (h', r')" "fst (random_element (genes c) r) = Some a"
    "genes c \<noteq> []" "drawn_kind r = faculty_mutation"
  shows "\<exists>x. h' = h[a := x] \<and> kept_fields (h ! a) x \<and>
    (if faculty_candidates g (h ! a) = [] then x = h ! a \<and> r' = after_draws 2 r
     else replaced_faculty g (h ! a) x \<and> r' = after_draws 3 r)"
proof -
  have mt: "\<not> fst (Math_random (after_draws (Suc 0) r)) < 33 / 100"
    "fst (Math_random (after_draws (Suc 0) r)) < 66 / 100"
    using assms(4) by (auto simp: drawn_kind_def Let_def after_draws_step split: if_splits)
  let ?co = "find (\<lambda>co. c_id co = courseId (h ! a)) (ga_courses g)"
  have same: "h' = h \<Longrightarrow> r' = after_draws 2 r \<Longrightarrow> faculty_candidates g (h ! a) = [] \<Longrightarrow> ?thesis"
    by (intro exI [of _ "h ! a"]) (simp add: kept_fields_def)
  show ?thesis
  proof (cases ?co)
    case None
    then have "h' = h" "r' = after_draws 2 r"
      using assms(1,2,3) mt by (auto simp: mutate_def split_beta after_draws_step)
    moreover have "faculty_candidates g (h ! a) = []"
      using None by (simp add: faculty_candidates_def)
    ultimately show ?thesis by (rule same)
  next
    case (Some co)
    then obtain facs where facs: "eligibleFaculty g co = Inr facs"
      using assms(1,2,3) mt
      by (cases "eligibleFaculty g co") (auto simp: mutate_def split_beta after_draws_step)
    have cand: "faculty_candidates g (h ! a) = facs"
      using Some eligibleFaculty_Inr [OF facs] by (simp add: faculty_candidates_def)
    show ?thesis
    proof (cases "facs = []")
      case True
      then have "h' = h" "r' = after_draws 2 r"
        using assms(1,2,3) mt Some facs by (auto simp: mutate_def split_beta after_draws_step)
      then show ?thesis using cand True by (intro same) simp_all
    next
      case False
      then obtain f where f: "fst (random_element facs (after_draws 2 r)) = Some f"
        and h': "h' = h[a := (h ! a)\<lparr> facultyId := f_id f, facultyName := f_name f \<rparr>]"
        and r': "r' = after_draws 3 r"
        using assms(1,2,3) mt Some facs
        by (cases "fst (random_element facs (after_draws 2 r))")
          (auto simp: mutate_def split_beta after_draws_step)
      have "replaced_faculty g (h ! a) ((h ! a)\<lparr> facultyId := f_id f, facultyName := f_name f \<rparr>)"
        using f cand by (intro faculty_replacement [of g "h ! a" "after_draws 2 r"]) simp
      then show ?thesis
        using h' r' cand False by (auto simp: kept_fields_def)
    qed
  qed
qed

lemma mutate_room_branch:
  assumes "mutate g h c r = Inr (h', r')" "fst (random_element (genes c) r) = Some a"
    "genes c \<noteq> []" "drawn_kind r = room_mutation"
  shows "\<exists>x. h' = h[a := x] \<and> kept_fields (h ! a) x \<and>
    (if room_candidates g (h ! a) = [] then x = h ! a \<and> r' = after_draws 2 r
     else replaced_room g (h ! a) x \<and> r' = after_draws 3 r)"
proof -
  have mt: "\<not> fst (Math_random (after_draws (Suc 0) r)) < 33 / 100"
    "\<not> fst (Math_random (after_draws (Suc 0) r)) < 66 / 100"
    using assms(4) by (auto simp: drawn_kind_def Let_def after_draws_step split: if_splits)
  let ?co = "find (\<lambda>co. c_id co = courseId (h ! a)) (ga_courses g)"
  have same: "h' = h \<Longrightarrow> r' = after_draws 2 r \<Longrightarrow> room_candidates g (h ! a) = [] \<Longrightarrow> ?thesis"
    by (intro exI [of _ "h ! a"]) (simp add: kept_fields_def)
  show ?thesis
  proof (cases ?co)
    case None
    then have "h' = h" "r' = after_draws 2 r"
      using assms(1,2,3) mt by (auto simp: mutate_def split_beta after_draws_step)
    moreover have "room_candidates g (h ! a) = []"
      using None by (simp add: room_candidates_def)
    ultimately show ?thesis by (rule same)
  next
    case (Some co)
    note co = Some
    let ?sec = "find (\<lambda>s. sectionName s = g_section (h ! a)) (sections co)"
    show ?thesis
    proof (cases ?sec)
      case None
      then have "h' = h" "r' = after_draws 2 r"
        using assms(1,2,3) mt co by (auto simp: mutate_def split_beta after_draws_step)
      moreover have "room_candidates g (h ! a) = []"
        using None co by (simp add: room_candidates_def)
      ultimately show ?thesis by (rule same)
    next
      case (Some sec)
      have cand: "room_candidates g (h ! a) = eligibleRooms g co (sessionType (h ! a)) sec"
        using co Some by (simp add: room_candidates_def)
      show ?thesis
      proof (cases "eligibleRooms g co (sessionType (h ! a)) sec = []")
        case True
        then have "h' = h" "r' = after_draws 2 r"
          using assms(1,2,3) mt co Some by (auto simp: mutate_def split_beta after_draws_step)
        then show ?thesis using cand True by (intro same) simp_all
      next
        case False
        then obtain rm where
          rm: "fst (random_element (eligibleRooms g co (sessionType (h ! a)) sec)
                 (after_draws 2 r)) = Some rm"
          and h': "h' = h[a := (h ! a)\<lparr> roomId := r_id rm, roomNumber := r_roomNumber rm \<rparr>]"
          and r': "r' = after_draws 3 r"
          using assms(1,2,3) mt co Some
          by (cases "fst (random_element (eligibleRooms g co (sessionType (h ! a)) sec)
                (after_draws 2 r))")
            (auto simp: mutate_def split_beta after_draws_step)
        have "replaced_room g (h ! a) ((h ! a)\<lparr> roomId := r_id rm, roomNumber := r_roomNumber rm \<rparr>)"
          using rm cand by (intro room_replacement [of g "h ! a" "after_draws 2 r"]) simp
        then show ?thesis
          using h' r' cand False by (auto simp: kept_fields_def)
      qed
    qed
  qed
qed

lemma mutate_cases:
  assumes "mutate g h c r = Inr (h', r')" "genes c \<noteq> []"
  shows "\<exists>a\<in>set (genes c). \<exists>x. h' = h[a := x] \<and> kept_fields (h ! a) x \<and>
    mutation_outcome g r (h ! a) x r'"
proof -
  obtain a where a: "fst (random_element (genes c) r) = Some a"
    using assms by (cases "fst (random_element (genes c) r)") (auto simp: mutate_def split_beta)
  then have mem: "a \<in> set (genes c)" by (rule random_element_in_set)
  have "\<exists>x. h' = h[a := x] \<and> kept_fields (h ! a) x \<and> mutation_outcome g r (h ! a) x r'"
  proof (cases "drawn_kind r")
    case time_slot_mutation
    then show ?thesis
      using mutate_time_branch [OF assms(1) a assms(2)] by (simp add: mutation_outcome_def)
  next
    case faculty_mutation
    then show ?thesis
      using mutate_faculty_branch [OF assms(1) a assms(2)] by (simp add: mutation_outcome_def)
  next
    case room_mutation
    then show ?thesis
      using mutate_room_branch [OF assms(1) a assms(2)] by (simp add: mutation_outcome_def)
  qed
  then show ?thesis using mem by blast
qed

text \<open>
  \<open>mutate\<close> returns when the grid has a time slot and every subject names a course: the
  two throws are the read of a slot that is \<open>undefined\<close> and the faculty filter.
\<close>

lemma mutate_returns:
  assumes "ga_timeSlots g \<noteq> []" "subjects_have_courseId g"
  shows "\<exists>h' r'. mutate g h c r = Inr (h', r')"
proof (cases "genes c = []")
  case True
  then show ?thesis by (simp add: mutate_def)
next
  case False
  note ne = False
  obtain a where a: "fst (random_element (genes c) r) = Some a"
    using random_element_nonempty [OF ne] by blast
  have fac: "eligibleFaculty g co = Inr (active_qualified g co)" for co
    by (rule eligibleFaculty_returns [OF assms(2)])
  define mt where "mt = fst (Math_random (after_draws (Suc 0) r))"
  let ?co = "find (\<lambda>co. c_id co = courseId (h ! a)) (ga_courses g)"
  consider (time) "mt < 33 / 100" | (faculty) "\<not> mt < 33 / 100" "mt < 66 / 100"
    | (room) "\<not> mt < 33 / 100" "\<not> mt < 66 / 100"
    by blast
  then show ?thesis
  proof cases
    case time
    obtain ts where "fst (random_element (ga_timeSlots g) (after_draws 2 r)) = Some ts"
      using random_element_nonempty [OF assms(1)] by blast
    then show ?thesis
      using ne a time unfolding mt_def by (simp add: mutate_def split_beta after_draws_step)
  next
    case faculty
    show ?thesis
    proof (cases ?co)
      case None
      then show ?thesis
        using ne a faculty unfolding mt_def
        by (simp add: mutate_def split_beta after_draws_step)
    next
      case (Some co)
      show ?thesis
      proof (cases "active_qualified g co = []")
        case True
        then show ?thesis
          using ne a faculty Some unfolding mt_def
          by (simp add: mutate_def split_beta after_draws_step fac)
      next
        case False
        then obtain f where
          "fst (random_element (active_qualified g co) (after_draws 2 r)) = Some f"
          using random_element_nonempty [of "active_qualified g co"] by blast
        then show ?thesis
          using ne a faculty Some False unfolding mt_def
          by (simp add: mutate_def split_beta after_draws_step fac)
      qed
    qed
  next
    case room
    show ?thesis
    proof (cases ?co)
      case None
      then show ?thesis
        using ne a room unfolding mt_def
        by (simp add: mutate_def split_beta after_draws_step)
    next
      case (Some co)
      note co = Some
      show ?thesis
      proof (cases "find (\<lambda>s. sectionName s = g_section (h ! a)) (sections co)")
        case None
        then show ?thesis
          using ne a room co unfolding mt_def
          by (simp add: mutate_def split_beta after_draws_step)
      next
        case (Some sec)
        show ?thesis
        proof (cases "eligibleRooms g co (sessionType (h ! a)) sec = []")
          case True
          then show ?thesis
            using ne a room co Some unfolding mt_def
            by (simp add: mutate_def split_beta after_draws_step)
        next
          case False
          then obtain rm where
            "fst (random_element (eligibleRooms g co (sessionType (h ! a)) sec)
               (after_draws 2 r)) = Some rm"
            using random_element_nonempty [of "eligibleRooms g co (sessionType (h ! a)) sec"]
            by blast
          then show ?thesis
            using ne a room co Some False unfolding mt_def
            by (simp add: mutate_def split_beta after_draws_step)
        qed
      qed
    qed
  qed
qed

text \<open>
  C10, as the code has it. \<open>mutate\<close> returns when the grid has a time slot and every
  subject names a course. When it returns, the store has the same size and the chromosome
  the same number of genes; on an empty chromosome nothing changes and nothing is drawn;
  otherwise there is one gene object of the chromosome such that every other gene object
  is unchanged, this one keeps its course, section, session type, duration and
  consecutive-slot count, and by the kind of mutation that is drawn it gets a time slot
  of the grid, or the id and name of one of its faculty candidates, or the id and number
  of one of its room candidates; when the gene has no candidate of the drawn kind (its
  course or section is not found, or none is eligible) it stays as it is and no third
  value is drawn.
\<close>

theorem mutate_frame:
  "(ga_timeSlots g \<noteq> [] \<and> subjects_have_courseId g \<longrightarrow>
      (\<exists>h' r'. mutate g h c r = Inr (h', r'))) \<and>
   (\<forall>h' r'. mutate g h c r = Inr (h', r') \<longrightarrow>
      length h' = length h \<and>
      length (genes (load h' c)) = length (genes (load h c)) \<and>
      (genes c = [] \<longrightarrow> h' = h \<and> r' = r) \<and>
      (genes c \<noteq> [] \<longrightarrow>
         (\<exists>a\<in>set (genes c). \<exists>x.
             h' = h[a := x] \<and> (\<forall>b. b \<noteq> a \<longrightarrow> h' ! b = h ! b) \<and>
             kept_fields (h ! a) x \<and> mutation_outcome g r (h ! a) x r')))"
proof -
  have returns: "\<exists>h' r'. mutate g h c r = Inr (h', r')"
    if "ga_timeSlots g \<noteq> [] \<and> subjects_have_courseId g"
    using that mutate_returns [of g h c r] by simp
  have frame: "length h' = length h \<and>
      length (genes (load h' c)) = length (genes (load h c)) \<and>
      (genes c = [] \<longrightarrow> h' = h \<and> r' = r) \<and>
      (genes c \<noteq> [] \<longrightarrow>
         (\<exists>a\<in>set (genes c). \<exists>x.
             h' = h[a := x] \<and> (\<forall>b. b \<noteq> a \<longrightarrow> h' ! b = h ! b) \<and>
             kept_fields (h ! a) x \<and> mutation_outcome g r (h ! a) x r'))"
    if ret: "mutate g h c r = Inr (h', r')" for h' r'
  proof (cases "genes c = []")
    case True
    then have "h' = h \<and> r' = r" using ret by (simp add: mutate_def)
    then show ?thesis using True by (simp add: load_def)
  next
    case False
    from mutate_cases [OF ret False] obtain a x where mem: "a \<in> set (genes c)"
      and h': "h' = h[a := x]" and k: "kept_fields (h ! a) x"
      and o: "mutation_outcome g r (h ! a) x r'"
      by blast
    have others: "\<forall>b. b \<noteq> a \<longrightarrow> h' ! b = h ! b" using h' by simp
    have "\<exists>a\<in>set (genes c). \<exists>x.
        h' = h[a := x] \<and> (\<forall>b. b \<noteq> a \<longrightarrow> h' ! b = h ! b) \<and>
        kept_fields (h ! a) x \<and> mutation_outcome g r (h ! a) x r'"
      using mem h' k o others by blast
    moreover have "length h' = length h" using h' by simp
    moreover have "length (genes (load h' c)) = length (genes (load h c))"
      by (simp add: load_def)
    ultimately show ?thesis using False by simp
  qed
  show ?thesis using returns frame by blast
qed

text \<open>
  When every gene of the chromosome has candidates of both kinds, a mutation that returns
  replaces one of the three groups of fields, and draws three values.
\<close>

lemma mutate_replaces_one:
  assumes "mutate g h c r = Inr (h', r')" "genes c \<noteq> []"
    "\<forall>a\<in>set (genes c). faculty_candidates g (h ! a) \<noteq> [] \<and> room_candidates g (h ! a) \<noteq> []"
  shows "\<exists>a\<in>set (genes c). \<exists>x. h' = h[a := x] \<and> kept_fields (h ! a) x \<and>
    one_replacement g (h ! a) x \<and> r' = after_draws 3 r"
proof -
  from mutate_cases [OF assms(1,2)] obtain a x where mem: "a \<in> set (genes c)"
    and h': "h' = h[a := x]" and k: "kept_fields (h ! a) x"
    and o: "mutation_outcome g r (h ! a) x r'"
    by blast
  have "faculty_candidates g (h ! a) \<noteq> []" "room_candidates g (h ! a) \<noteq> []"
    using assms(3) mem by auto
  then have "one_replacement g (h ! a) x \<and> r' = after_draws 3 r"
    using o by (cases "drawn_kind r") (simp_all add: mutation_outcome_def one_replacement_def)
  then show ?thesis using mem h' k by blast
qed

text \<open>
  The candidates depend on the fields that no mutation writes, so a mutation leaves a gene
  with the candidates it had.
\<close>

lemma candidates_kept:
  assumes "kept_fields old new"
  shows "faculty_candidates g new = faculty_candidates g old"
    "room_candidates g new = room_candidates g old"
  using assms
  by (simp_all add: kept_fields_def faculty_candidates_def room_candidates_def
        cong: option.case_cong)

text \<open>
  Every gene that random construction builds has candidates of both kinds, provided no
  two courses share an id and no two sections of a course share a name: \<open>mutate\<close> finds
  the course and the section the gene was built for.
\<close>

lemma find_apart:
  assumes "distinct (map f xs)" "x \<in> set xs"
  shows "find (\<lambda>y. f y = f x) xs = Some x"
  using assms by (induction xs) (auto simp: image_iff)

lemma created_gene_candidates:
  assumes "fst (createRandomGene g co sec ses r) = Some x" "co \<in> set (ga_courses g)"
    "sec \<in> set (sections co)" "names_apart g"
  shows "faculty_candidates g x \<noteq> [] \<and> room_candidates g x \<noteq> []"
proof -
  obtain facs where facs: "eligibleFaculty g co = Inr facs"
    using assms(1) by (cases "eligibleFaculty g co") (auto simp: createRandomGene_def split_beta)
  have ne: "facs \<noteq> []" "eligibleRooms g co (s_type ses) sec \<noteq> []"
    using assms(1) facs by (auto simp: createRandomGene_def split_beta split: if_splits)
  have x: "courseId x = c_id co" "g_section x = sectionName sec" "sessionType x = s_type ses"
    using assms(1) facs ne
    by (auto simp: createRandomGene_def split_beta split: if_splits option.splits)
  have co: "find (\<lambda>c. c_id c = courseId x) (ga_courses g) = Some co"
    using assms(2,4) find_apart [of c_id "ga_courses g" co] by (simp add: names_apart_def x)
  have "distinct (map sectionName (sections co))"
    using assms(2,4) by (simp add: names_apart_def list_all_iff)
  then have sec: "find (\<lambda>s. sectionName s = g_section x) (sections co) = Some sec"
    using assms(3) find_apart [of sectionName "sections co" sec] by (simp add: x)
  show ?thesis
    using co sec ne eligibleFaculty_Inr [OF facs]
    by (simp add: faculty_candidates_def room_candidates_def x)
qed

lemma genes_of_sessions_built:
  assumes "x \<in> set (fst (genes_of_sessions g co sec sess r))"
  shows "\<exists>ses r0. fst (createRandomGene g co sec ses r0) = Some x"
  using assms
proof (induction sess arbitrary: r)
  case Nil
  then show ?case by simp
next
  case (Cons ses sess)
  then show ?case
    by (cases "fst (createRandomGene g co sec ses r)") (auto simp: split_beta)
qed

lemma genes_of_sections_built:
  assumes "x \<in> set (fst (genes_of_sections g co sess secs r))"
  shows "\<exists>sec\<in>set secs. \<exists>ses r0. fst (createRandomGene g co sec ses r0) = Some x"
  using assms
proof (induction secs arbitrary: r)
  case Nil
  then show ?case by simp
next
  case (Cons sec secs)
  then show ?case
    using genes_of_sessions_built [of x g co sec sess r] by (auto simp: split_beta)
qed

lemma genes_of_courses_built:
  assumes "genes_of_courses g cs r = Inr (gs, r')" "x \<in> set gs"
  shows "\<exists>co\<in>set cs. \<exists>sec\<in>set (sections co). \<exists>ses r0.
    fst (createRandomGene g co sec ses r0) = Some x"
  using assms
proof (induction cs arbitrary: r gs)
  case Nil
  then show ?case by simp
next
  case (Cons co cs)
  from Cons.prems(1) obtain sess where sess: "getRequiredSessions co = Inr sess"
    by (cases "getRequiredSessions co") auto
  let ?p = "genes_of_sections g co sess (sections co) r"
  from Cons.prems(1) sess obtain gs2 where
    rest: "genes_of_courses g cs (snd ?p) = Inr (gs2, r')" and gs: "gs = fst ?p @ gs2"
    by (cases "genes_of_courses g cs (snd ?p)") (auto simp: split_beta)
  from Cons.prems(2) gs have "x \<in> set (fst ?p) \<or> x \<in> set gs2" by simp
  then show ?case
  proof
    assume "x \<in> set (fst ?p)"
    then show ?thesis using genes_of_sections_built [of x g co sess "sections co" r] by simp
  next
    assume "x \<in> set gs2"
    then show ?thesis using Cons.IH [OF rest] by simp
  qed
qed

lemma constructed_genes_candidates:
  assumes "createRandomChromosome g r = Inr (c, r')" "names_apart g" "x \<in> set (genes c)"
  shows "faculty_candidates g x \<noteq> [] \<and> room_candidates g x \<noteq> []"
proof -
  from assms(1) obtain gs where gs: "genes_of_courses g (ga_courses g) r = Inr (gs, r')"
    and c: "genes c = gs"
    by (cases "genes_of_courses g (ga_courses g) r") (auto simp: createRandomChromosome_def)
  from genes_of_courses_built [OF gs] assms(3) c obtain co sec ses r0 where
    "co \<in> set (ga_courses g)" "sec \<in> set (sections co)"
    "fst (createRandomGene g co sec ses r0) = Some x"
    by blast
  then show ?thesis using created_gene_candidates assms(2) by blast
qed

text \<open>
  The snapshot with two entries for section A. Construction finds no room for the 100
  students of the first entry and builds one gene, for the batch of 30. With a generator
  that always returns 9/10, \<open>mutate\<close> takes this gene and the room mutation, looks the
  section up by name, finds the first entry, and has no room to choose from.
\<close>

lemma batches_fields:
  "ga_courses ga_batches = [course_batches]"
  "ga_faculty ga_batches = [faculty_f1]"
  "ga_rooms ga_batches = [room_r1]"
  "ga_timeSlots ga_batches = [slot_mon1, slot_mon2]"
  "tournamentSize ga_batches = 1"
  "crossoverRate ga_batches = 8 / 10"
  "mutationRate ga_batches = 1"
  by (simp_all add: ga_defs)

lemma course_batches_fields:
  "c_id course_batches = ''c1''"
  "c_courseCode course_batches = ''CS101''"
  "c_courseName course_batches = ''Programming''"
  "sections course_batches =
     [\<lparr> sectionName = ''A'', strength = 100 \<rparr>, \<lparr> sectionName = ''A'', strength = 30 \<rparr>]"
  "getRequiredSessions course_batches =
     Inr [\<lparr> s_type = theory_session, s_duration = 1, s_consecutiveSlots = 1 \<rparr>]"
  by (simp_all add: course_batches_def getRequiredSessions_def) (simp_all add: course_cs101_def)

lemma batches_eligible:
  "eligibleFaculty ga_batches course_batches = Inr [faculty_f1]"
  "eligibleRooms ga_batches course_batches theory_session \<lparr> sectionName = ''A'', strength = 100 \<rparr> = []"
  "eligibleRooms ga_batches course_batches theory_session \<lparr> sectionName = ''A'', strength = 30 \<rparr> =
     [room_r1]"
  by (simp_all add: eligibleFaculty_def eligibleRooms_def isRoomSuitable_def batches_fields
        course_batches_fields f1_teaches room_r1_def)

lemma batches_genes:
  "createRandomGene ga_batches course_batches \<lparr> sectionName = ''A'', strength = 100 \<rparr>
     \<lparr> s_type = theory_session, s_duration = 1, s_consecutiveSlots = 1 \<rparr> rnd_high =
   (None, rnd_high)"
  "createRandomGene ga_batches course_batches \<lparr> sectionName = ''A'', strength = 30 \<rparr>
     \<lparr> s_type = theory_session, s_duration = 1, s_consecutiveSlots = 1 \<rparr> rnd_high =
   (Some gene_batch, rnd_high)"
  by (simp_all add: createRandomGene_def batches_eligible batches_fields random_element_consts
        element_at_def course_batches_fields gene_batch_def gene_a_def faculty_f1_def room_r1_def)

lemma batches_chromosome:
  "createRandomChromosome ga_batches rnd_high = Inr (chromosome_of [gene_batch], rnd_high)"
  by (simp add: createRandomChromosome_def batches_fields course_batches_fields batches_genes
        chromosome_of_def)

lemma batch_fields:
  "courseId gene_batch = ''c1''"
  "g_section gene_batch = ''A''"
  "sessionType gene_batch = theory_session"
  by (simp_all add: gene_batch_def gene_a_def)

lemma batch_no_room: "room_candidates ga_batches gene_batch = []"
  by (simp add: room_candidates_def batches_fields course_batches_fields batch_fields
        batches_eligible)

lemma batch_kind: "drawn_kind rnd_high = room_mutation"
  by (simp add: drawn_kind_def rnd_consts)

lemma batch_mutation:
  "mutate ga_batches [gene_batch] (chromosome_of [0]) rnd_high = Inr ([gene_batch], rnd_high)"
  by (simp add: mutate_def chromosome_of_def random_element_consts rnd_consts element_at_def
        batches_fields course_batches_fields batch_fields batches_eligible)

text \<open>
  One pass of the loop of \<open>evolve\<close> on the population that holds this chromosome: both
  tournaments pick it, the offspring is a copy (9/10 is not below the crossover rate),
  \<open>mutate\<close> is called on the copy, and the copy comes back as it was.
\<close>

lemma batch_tournament:
  "tournamentSelection ga_batches [chromosome_of [0]] rnd_high =
     Inr (Some (chromosome_of [0]), rnd_high)"
  by (simp add: tournamentSelection_def batches_fields random_element_consts element_at_def)

lemma batch_copy:
  "json_copy [gene_batch] (chromosome_of [0]) = ([gene_batch, gene_batch], chromosome_of [1])"
  by (simp add: json_copy_def store_new_def load_def alloc_all_def chromosome_of_def upt_rec)

lemma batch_copy_mutation:
  "mutate ga_batches [gene_batch, gene_batch] (chromosome_of [1]) rnd_high =
     Inr ([gene_batch, gene_batch], rnd_high)"
  by (simp add: mutate_def chromosome_of_def random_element_consts rnd_consts element_at_def
        batches_fields course_batches_fields batch_fields batches_eligible)

lemma batch_offspring:
  "make_offspring ga_batches [chromosome_of [0]] [gene_batch] rnd_high =
     Inr ([gene_batch, gene_batch], chromosome_of [1], rnd_high)"
  by (simp add: make_offspring_def batch_tournament batch_copy batch_copy_mutation rnd_consts
        batches_fields del: One_nat_def)

text \<open>
  C10 as stated fails there: the chromosome is the one that random construction builds on
  the snapshot, \<open>mutate\<close> returns, the room mutation is drawn, and no field of the gene is
  replaced, since the gene has no room candidate; and so it goes when \<open>evolve\<close> makes an
  offspring of this chromosome and mutates it.
\<close>

theorem mutate_counterexample:
  "createRandomChromosome ga_batches rnd_high = Inr (chromosome_of [gene_batch], rnd_high) \<and>
   mutate ga_batches [gene_batch] (chromosome_of [0]) rnd_high = Inr ([gene_batch], rnd_high) \<and>
   drawn_kind rnd_high = room_mutation \<and>
   room_candidates ga_batches gene_batch = [] \<and>
   (\<forall>x. \<not> replaced_room ga_batches gene_batch x) \<and>
   make_offspring ga_batches [chromosome_of [0]] [gene_batch] rnd_high =
     Inr ([gene_batch, gene_batch], chromosome_of [1], rnd_high)"
proof (intro conjI)
  show "createRandomChromosome ga_batches rnd_high = Inr (chromosome_of [gene_batch], rnd_high)"
    by (rule batches_chromosome)
  show "mutate ga_batches [gene_batch] (chromosome_of [0]) rnd_high = Inr ([gene_batch], rnd_high)"
    by (rule batch_mutation)
  show "drawn_kind rnd_high = room_mutation"
    by (rule batch_kind)
  show "room_candidates ga_batches gene_batch = []"
    by (rule batch_no_room)
  show "\<forall>x. \<not> replaced_room ga_batches gene_batch x"
    by (simp add: replaced_room_def batch_no_room)
  show "make_offspring ga_batches [chromosome_of [0]] [gene_batch] rnd_high =
     Inr ([gene_batch, gene_batch], chromosome_of [1], rnd_high)"
    by (rule batch_offspring)
qed

text \<open>
  On the small snapshot, with a generator that always returns 0, a gene in the second slot
  of Monday gets the first one.
\<close>

lemma mutate_time_slot:
  "mutate ga_small [gene_a\<lparr> timeSlot := slot_mon2 \<rparr>] (chromosome_of [0]) rnd_zero =
     Inr ([gene_a], rnd_zero)"
  by (simp add: mutate_def chromosome_of_def random_element_consts rnd_consts element_at_def
        small_fields gene_a_def)

theorem mutate_frame_witness:
  "ga_timeSlots ga_small \<noteq> [] \<and> subjects_have_courseId ga_small \<and>
   mutate ga_small [gene_a\<lparr> timeSlot := slot_mon2 \<rparr>] (chromosome_of [0]) rnd_zero =
     Inr ([gene_a], rnd_zero) \<and>
   (\<exists>x. [gene_a] = [gene_a\<lparr> timeSlot := slot_mon2 \<rparr>][0 := x] \<and>
        kept_fields (gene_a\<lparr> timeSlot := slot_mon2 \<rparr>) x \<and>
        mutation_outcome ga_small rnd_zero (gene_a\<lparr> timeSlot := slot_mon2 \<rparr>) x rnd_zero)"
proof -
  have "genes (chromosome_of [0::nat]) \<noteq> []" by (simp add: chromosome_of_def)
  then have "\<exists>a\<in>set (genes (chromosome_of [0::nat])). \<exists>x.
      [gene_a] = [gene_a\<lparr> timeSlot := slot_mon2 \<rparr>][a := x] \<and>
      (\<forall>b. b \<noteq> a \<longrightarrow> [gene_a] ! b = [gene_a\<lparr> timeSlot := slot_mon2 \<rparr>] ! b) \<and>
      kept_fields ([gene_a\<lparr> timeSlot := slot_mon2 \<rparr>] ! a) x \<and>
      mutation_outcome ga_small rnd_zero ([gene_a\<lparr> timeSlot := slot_mon2 \<rparr>] ! a) x rnd_zero"
    using mutate_frame [of ga_small "[gene_a\<lparr> timeSlot := slot_mon2 \<rparr>]" "chromosome_of [0]" rnd_zero]
      mutate_time_slot by blast
  then have "\<exists>x. [gene_a] = [gene_a\<lparr> timeSlot := slot_mon2 \<rparr>][0 := x] \<and>
      kept_fields (gene_a\<lparr> timeSlot := slot_mon2 \<rparr>) x \<and>
      mutation_outcome ga_small rnd_zero (gene_a\<lparr> timeSlot := slot_mon2 \<rparr>) x rnd_zero"
    by (auto simp: chromosome_of_def)
  then show ?thesis
    using mutate_time_slot by (simp add: small_fields small_subjects)
qed
section \<open>The best-so-far\<close>

lemma track_best_cases:
  "track_best (Some b) cur = b \<or> fitness b < fitness (track_best (Some b) cur)"
  by (simp add: track_best_def)

lemma generation_step_best:
  assumes "generation_step g gen s r = Inr (s', r', stop)"
  shows "\<exists>cur. bestChromosome s' = Some (track_best (bestChromosome s) cur)"
proof -
  obtain currentBest where cb:
      "getBestChromosome (evaluatePopulation g (heap s) (population s)) = Inr currentBest"
    using assms by (cases "getBestChromosome (evaluatePopulation g (heap s) (population s))")
      (auto simp: generation_step_def Let_def)
  show ?thesis
    using assms cb
    by (auto simp: generation_step_def Let_def split: if_splits sum.splits)
qed

lemma generation_step_monotone:
  assumes "generation_step g gen s r = Inr (s', r', stop)"
  shows "\<exists>b'. bestChromosome s' = Some b' \<and>
    (\<forall>b. bestChromosome s = Some b \<longrightarrow> b' = b \<or> fitness b < fitness b')"
proof -
  obtain cur where "bestChromosome s' = Some (track_best (bestChromosome s) cur)"
    using generation_step_best [OF assms] by blast
  then show ?thesis
    using track_best_cases by auto
qed

lemma trace_lower_bound:
  assumes "bestChromosome s = Some b"
  shows "\<forall>x\<in>set (best_fitness_trace g n gen s r). fitness b \<le> x"
  using assms
proof (induction n arbitrary: gen s r b)
  case 0
  then show ?case by simp
next
  case (Suc n)
  show ?case
  proof (cases "generation_step g gen s r")
    case (Inl e)
    then show ?thesis by simp
  next
    case (Inr res)
    obtain s' r' stop where res: "res = (s', r', stop)" by (cases res)
    obtain b' where b': "bestChromosome s' = Some b'"
      and mono: "b' = b \<or> fitness b < fitness b'"
      using generation_step_monotone [of g gen s r s' r' stop] Inr res Suc.prems by auto
    have le: "fitness b \<le> fitness b'" using mono by auto
    have "\<forall>x\<in>set (best_fitness_trace g n (Suc gen) s' r'). fitness b' \<le> x"
      using b' by (rule Suc.IH)
    then have "\<forall>x\<in>set (best_fitness_trace g n (Suc gen) s' r'). fitness b \<le> x"
      using le by auto
    then show ?thesis
      using Inr res b' le by simp
  qed
qed

lemma trace_sorted: "sorted (best_fitness_trace g n gen s r)"
proof (induction n arbitrary: gen s r)
  case 0
  then show ?case by simp
next
  case (Suc n)
  show ?case
  proof (cases "generation_step g gen s r")
    case (Inl e)
    then show ?thesis by simp
  next
    case (Inr res)
    obtain s' r' stop where res: "res = (s', r', stop)" by (cases res)
    obtain b' where b': "bestChromosome s' = Some b'"
      using generation_step_monotone [of g gen s r s' r' stop] Inr res by auto
    have "\<forall>x\<in>set (best_fitness_trace g n (Suc gen) s' r'). fitness b' \<le> x"
      using b' by (rule trace_lower_bound)
    moreover have "sorted (best_fitness_trace g n (Suc gen) s' r')"
      by (rule Suc.IH)
    ultimately show ?thesis
      using Inr res b' by simp
  qed
qed

text \<open>
  The trace is the one of the loop of \<open>optimize\<close>: when the loop returns after at least
  one generation, the fitness of the best-so-far it leaves is the last value of the trace,
  and so is the fitness of the schedule that \<open>optimize\<close> returns.
\<close>

lemma evolution_loop_trace:
  assumes "evolution_loop g n gen s r = Inr (s', r')" "0 < n"
  shows "\<exists>b. bestChromosome s' = Some b \<and> best_fitness_trace g n gen s r \<noteq> [] \<and>
    last (best_fitness_trace g n gen s r) = fitness b"
  using assms
proof (induction n arbitrary: gen s r)
  case 0
  then show ?case by simp
next
  case (Suc n)
  from Suc.prems(1) obtain s1 r1 stop where
    step: "generation_step g gen s r = Inr (s1, r1, stop)"
    by (cases "generation_step g gen s r") auto
  obtain b1 where b1: "bestChromosome s1 = Some b1"
    using generation_step_monotone [OF step] by blast
  show ?case
  proof (cases "stop \<or> n = 0")
    case True
    then have "s' = s1" using Suc.prems(1) step by (cases n) (auto split: if_splits)
    then show ?thesis using step b1 True by (cases n) (auto split: if_splits)
  next
    case False
    then have loop: "evolution_loop g n (Suc gen) s1 r1 = Inr (s', r')" and n: "0 < n"
      using Suc.prems(1) step by auto
    from Suc.IH [OF loop n] obtain b where
      "bestChromosome s' = Some b" "best_fitness_trace g n (Suc gen) s1 r1 \<noteq> []"
      "last (best_fitness_trace g n (Suc gen) s1 r1) = fitness b"
      by blast
    then show ?thesis using step b1 False by simp
  qed
qed

lemma optimize_trace:
  assumes "optimize g r = Inr res" "generateInitialPopulation g r = Inr (h, pop, r1)"
  shows "best_fitness_trace g (maxGenerations g) 0 (initial_state h pop) r1 \<noteq> [] \<and>
    fitness (schedule res) =
      last (best_fitness_trace g (maxGenerations g) 0 (initial_state h pop) r1)"
proof -
  from assms obtain s r2 where
    loop: "evolution_loop g (maxGenerations g) 0 (initial_state h pop) r1 = Inr (s, r2)"
    by (cases "evolution_loop g (maxGenerations g) 0 (initial_state h pop) r1")
      (auto simp: optimize_def)
  from assms loop obtain b where b: "bestChromosome s = Some b" and res: "schedule res = b"
    by (cases "bestChromosome s") (auto simp: optimize_def)
  have "0 < maxGenerations g"
  proof (rule ccontr)
    assume "\<not> 0 < maxGenerations g"
    then have "s = initial_state h pop" using loop by simp
    then show False using b by (simp add: initial_state_def)
  qed
  from evolution_loop_trace [OF loop this] b res show ?thesis by auto
qed

text \<open>
  C4. Along the generations of the loop the fitness of the recorded best-so-far never
  decreases: the list of its values, one for each generation that completes, is sorted,
  that is, the value at a generation is at most the value at any later one. In one
  generation the best-so-far is set, and either stays the chromosome it was or becomes one
  of strictly higher fitness.
\<close>

theorem best_so_far_monotone:
  "sorted (best_fitness_trace g n gen s r) \<and>
   (\<forall>g1 g2. g1 < g2 \<and> g2 < length (best_fitness_trace g n gen s r) \<longrightarrow>
      best_fitness_trace g n gen s r ! g1 \<le> best_fitness_trace g n gen s r ! g2) \<and>
   (generation_step g gen s r = Inr (s', r', stop) \<longrightarrow>
      (\<exists>b'. bestChromosome s' = Some b' \<and>
         (\<forall>b. bestChromosome s = Some b \<longrightarrow> b' = b \<or> fitness b < fitness b')))"
proof (intro conjI impI allI)
  show "sorted (best_fitness_trace g n gen s r)"
    by (rule trace_sorted)
next
  fix g1 g2
  assume "g1 < g2 \<and> g2 < length (best_fitness_trace g n gen s r)"
  then show "best_fitness_trace g n gen s r ! g1 \<le> best_fitness_trace g n gen s r ! g2"
    using trace_sorted [of g n gen s r] by (simp add: sorted_iff_nth_mono_less)
next
  assume "generation_step g gen s r = Inr (s', r', stop)"
  then show "\<exists>b'. bestChromosome s' = Some b' \<and>
         (\<forall>b. bestChromosome s = Some b \<longrightarrow> b' = b \<or> fitness b < fitness b')"
    by (rule generation_step_monotone)
qed

section \<open>A run on the small snapshot\<close>

lemma lone_gene_checks:
  "count (checkFacultyConflicts (chromosome_of [x])) = 0"
  "count (checkRoomConflicts (chromosome_of [x])) = 0"
  "count (checkSectionConflicts (chromosome_of [x])) = 0"
  "calculateStudentGaps (chromosome_of [x]) = 0"
  "calculateFacultyGaps (chromosome_of [x]) = 0"
  "checkConsecutiveHours (chromosome_of [x]) fs = 0"
  by (simp_all add: checkFacultyConflicts_def checkRoomConflicts_def checkSectionConflicts_def
        calculateStudentGaps_def calculateFacultyGaps_def checkConsecutiveHours_def
        group_slots_def chromosome_of_def map_defs)

lemma lone_gene_balance:
  "imbalance (evaluateWorkloadBalance (chromosome_of [x]) fs) = 0"
  by (simp add: evaluateWorkloadBalance_def workload_of_def chromosome_of_def map_defs)

lemma small_gene_checks:
  "checkFacultyAvailability (chromosome_of [gene_a\<lparr> timeSlot := ts \<rparr>]) [faculty_f1] = 0"
  "checkRoomCapacity (chromosome_of [gene_a\<lparr> timeSlot := ts \<rparr>]) [course_cs101] [room_r1] = 0"
  "checkWorkloadConstraints (chromosome_of [gene_a\<lparr> timeSlot := ts \<rparr>]) [faculty_f1] =
     \<lparr> exceeded = 0, underUtilized = 0 \<rparr>"
  by (simp_all add: checkFacultyAvailability_def gene_unavailable_def checkRoomCapacity_def
        gene_over_capacity_def checkWorkloadConstraints_def workload_of_def chromosome_of_def
        map_defs js_or_def gene_a_def faculty_f1_def room_r1_def course_cs101_def)

lemma small_gene_evaluation:
  "calculate default_weights (chromosome_of [gene_a\<lparr> timeSlot := ts \<rparr>])
     [course_cs101] [faculty_f1] [room_r1] =
   \<lparr> ev_fitness = 1000, ev_hardViolations = 0, ev_softViolations = 0,
     ev_details = \<lparr> hardConstraints = [], softConstraints = [] \<rparr> \<rparr>"
  by (simp add: calculate_def lone_gene_checks lone_gene_balance small_gene_checks
        checkLabContinuity_zero)

lemma small_evaluateChromosome:
  "evaluateChromosome ga_small [gene_a\<lparr> timeSlot := ts \<rparr>] (chromosome_of [0]) = perfect [0]"
proof -
  have "load [gene_a\<lparr> timeSlot := ts \<rparr>] (chromosome_of [0]) =
      chromosome_of [gene_a\<lparr> timeSlot := ts \<rparr>]"
    by (simp add: load_def chromosome_of_def)
  then show ?thesis
    by (simp add: evaluateChromosome_def small_fields small_gene_evaluation perfect_def)
      (simp add: chromosome_of_def)
qed

lemma small_generation_step:
  assumes "old = None \<or> (\<exists>b. old = Some b \<and> fitness b < 1000)"
  shows "generation_step ga_small 0
     \<lparr> heap = [gene_a\<lparr> timeSlot := ts \<rparr>], population = [chromosome_of [0]],
       bestChromosome = old, generationHistory = [] \<rparr> r =
   Inr (\<lparr> heap = [gene_a\<lparr> timeSlot := ts \<rparr>], population = [perfect [0]],
          bestChromosome = Some (perfect [gene_a\<lparr> timeSlot := ts \<rparr>]),
          generationHistory =
            [\<lparr> generation = 0, bestFitness = 1000, avgFitness = 1000, h_hardViolations = 0,
               h_softViolations = 0 \<rparr>] \<rparr>, r, True)"
proof -
  have "track_best old (load [gene_a\<lparr> timeSlot := ts \<rparr>] (perfect [0])) =
      perfect [gene_a\<lparr> timeSlot := ts \<rparr>]"
    using assms by (auto simp: track_best_def perfect_def load_def)
  then show ?thesis
    by (simp add: generation_step_def evaluatePopulation_def small_evaluateChromosome
        getBestChromosome_def Let_def)
      (simp add: perfect_def)
qed

text \<open>
  One generation on the small snapshot, from a recorded best of fitness 500: the generation
  completes and the best-so-far becomes the current chromosome, of fitness 1000.
\<close>

theorem best_so_far_monotone_witness:
  "generation_step ga_small 0
     \<lparr> heap = [gene_a], population = [chromosome_of [0]], bestChromosome = Some worse,
       generationHistory = [] \<rparr> rnd_zero =
   Inr (\<lparr> heap = [gene_a], population = [perfect [0]],
          bestChromosome = Some (perfect [gene_a]),
          generationHistory =
            [\<lparr> generation = 0, bestFitness = 1000, avgFitness = 1000, h_hardViolations = 0,
               h_softViolations = 0 \<rparr>] \<rparr>, rnd_zero, True) \<and>
   fitness worse < fitness (perfect [gene_a])"
proof -
  have step: "generation_step ga_small 0
     \<lparr> heap = [gene_a], population = [chromosome_of [0]], bestChromosome = Some worse,
       generationHistory = [] \<rparr> rnd_zero =
   Inr (\<lparr> heap = [gene_a], population = [perfect [0]],
          bestChromosome = Some (perfect [gene_a]),
          generationHistory =
            [\<lparr> generation = 0, bestFitness = 1000, avgFitness = 1000, h_hardViolations = 0,
               h_softViolations = 0 \<rparr>] \<rparr>, rnd_zero, True)"
    using small_generation_step [of "Some worse" slot_mon1 rnd_zero]
    by (simp add: worse_def chromosome_of_def gene_a_def)
  have "perfect [gene_a] \<noteq> worse"
    by (simp add: perfect_def worse_def chromosome_of_def)
  then have "fitness worse < fitness (perfect [gene_a])"
    using best_so_far_monotone [of ga_small 0 0 _ rnd_zero] step by fastforce
  then show ?thesis using step by simp
qed

lemma store_new_lone: "store_new [] (chromosome_of [x]) = ([x], chromosome_of [0])"
  by (simp add: store_new_def alloc_all_def chromosome_of_def)

lemma small_gene_high:
  "createRandomGene ga_small course_cs101 \<lparr> sectionName = ''A'', strength = 30 \<rparr>
     \<lparr> s_type = theory_session, s_duration = 1, s_consecutiveSlots = 1 \<rparr> rnd_high =
   (Some (gene_a\<lparr> timeSlot := slot_mon2 \<rparr>), rnd_high)"
  by (simp add: createRandomGene_def small_eligible small_fields random_element_consts
        element_at_def cs101_fields gene_a_def faculty_f1_def room_r1_def)

lemma small_chromosome_high:
  "createRandomChromosome ga_small rnd_high =
     Inr (chromosome_of [gene_a\<lparr> timeSlot := slot_mon2 \<rparr>], rnd_high)"
  by (simp add: createRandomChromosome_def small_fields sessions_cs101 cs101_fields
        small_gene_high chromosome_of_def)

lemma small_optimize:
  assumes "createRandomChromosome ga_small r = Inr (chromosome_of [gene_a\<lparr> timeSlot := ts \<rparr>], r)"
  shows "optimize ga_small r =
    Inr \<lparr> schedule = perfect [gene_a\<lparr> timeSlot := ts \<rparr>],
          generations =
            [\<lparr> generation = 0, bestFitness = 1000, avgFitness = 1000, h_hardViolations = 0,
               h_softViolations = 0 \<rparr>] \<rparr>"
  by (simp add: optimize_def generateInitialPopulation_def small_fields assms store_new_lone
        initial_state_def small_generation_step)

lemma small_optimize_zero:
  "optimize ga_small rnd_zero =
    Inr \<lparr> schedule = perfect [gene_a],
          generations =
            [\<lparr> generation = 0, bestFitness = 1000, avgFitness = 1000, h_hardViolations = 0,
               h_softViolations = 0 \<rparr>] \<rparr>"
  using small_optimize [of rnd_zero slot_mon1] small_chromosome_zero
  by (simp add: gene_a_def)

lemma small_optimize_high:
  "optimize ga_small rnd_high =
    Inr \<lparr> schedule = perfect [gene_a\<lparr> timeSlot := slot_mon2 \<rparr>],
          generations =
            [\<lparr> generation = 0, bestFitness = 1000, avgFitness = 1000, h_hardViolations = 0,
               h_softViolations = 0 \<rparr>] \<rparr>"
  using small_optimize [of rnd_high slot_mon2] small_chromosome_high
  by simp

text \<open>
  C9 as stated fails: the configuration has a seed, and two runs on the small snapshot
  differ, one with a generator that always returns 0 and one with a generator that always
  returns 9/10 (the class is put in the first or in the second slot of Monday).
\<close>

theorem seeded_runs_differ:
  "cfg_seed config_seeded = Some 42 \<and>
   ga_small = initialize (GeneticAlgorithm config_seeded) snapshot_small \<and>
   optimize ga_small rnd_zero \<noteq> optimize ga_small rnd_high"
  by (simp add: small_optimize_zero small_optimize_high perfect_def)
    (simp add: config_seeded_def ga_small_def gene_a_def slot_mon1_def slot_mon2_def)

text \<open>
  C9, as the code has it. The driver has no seed: the result of a run is a function of the
  snapshot, of the configuration and of the values that \<open>Math.random\<close> returns, and it
  is the same whatever seed the configuration holds.
\<close>

theorem seed_ignored:
  "optimize (initialize (GeneticAlgorithm (cfg\<lparr> cfg_seed := seed \<rparr>)) d) r =
   optimize (initialize (GeneticAlgorithm cfg) d) r"
  by (simp add: GeneticAlgorithm_def)

end
